theory Spec2Isabelle
  imports Complex_Main "HOL-Library.Sublist"
begin

section \<open>Python values as the scrapers see them\<close>

text \<open>
  The three scrapers (\<^verbatim>\<open>enhanced_pulte_scraper.py\<close>, \<^verbatim>\<open>workday_simple_api.py\<close>,
  \<^verbatim>\<open>simple_pulte_scraper.py\<close>) work on decoded JSON and on Python strings.
  A decoded JSON value is one of \<^verbatim>\<open>None\<close>, a \<^verbatim>\<open>bool\<close>, an \<^verbatim>\<open>int\<close>, a \<^verbatim>\<open>str\<close>, a
  \<^verbatim>\<open>list\<close> or a \<^verbatim>\<open>dict\<close> with string keys. A dictionary is an association list
  in which the first binding of a key is the dictionary's binding. JSON numbers with a
  fraction (Python floats) are outside the model. A \<^typ>\<open>char\<close> stands for one
  character of a Python string with a code point below 256.
\<close>

datatype json =
    JNull
  | JBool bool
  | JInt int
  | JStr string
  | JList "json list"
  | JDict "(string \<times> json) list"

text \<open>Python truthiness (\<^verbatim>\<open>bool(v)\<close>), as \<^verbatim>\<open>if v:\<close> and \<^verbatim>\<open>if not v:\<close> test it.\<close>

fun truthy :: "json \<Rightarrow> bool" where
  "truthy JNull = False"
| "truthy (JBool b) = b"
| "truthy (JInt i) = (i \<noteq> 0)"
| "truthy (JStr s) = (s \<noteq> [])"
| "truthy (JList xs) = (xs \<noteq> [])"
| "truthy (JDict kvs) = (kvs \<noteq> [])"

text \<open>\<^verbatim>\<open>d.get(k)\<close>, \<^verbatim>\<open>k in d\<close> and \<^verbatim>\<open>d.get(k, default)\<close> on a dictionary.\<close>

definition dict_get :: "(string \<times> json) list \<Rightarrow> string \<Rightarrow> json option" where
  "dict_get d k = map_of d k"

definition has_key :: "(string \<times> json) list \<Rightarrow> string \<Rightarrow> bool" where
  "has_key d k = (dict_get d k \<noteq> None)"

definition get_or :: "(string \<times> json) list \<Rightarrow> string \<Rightarrow> json \<Rightarrow> json" where
  "get_or d k dflt = (case dict_get d k of None \<Rightarrow> dflt | Some v \<Rightarrow> v)"

text \<open>\<^verbatim>\<open>if d.get(k):\<close> : the key is present and its value is truthy.\<close>

definition get_truthy :: "(string \<times> json) list \<Rightarrow> string \<Rightarrow> bool" where
  "get_truthy d k = (case dict_get d k of None \<Rightarrow> False | Some v \<Rightarrow> truthy v)"

text \<open>
  The loop \<^verbatim>\<open>for field in fields: if job.get(field): ...; break\<close> : the value of the
  first field, in the order of the list, that is present and truthy.
\<close>

fun first_truthy :: "(string \<times> json) list \<Rightarrow> string list \<Rightarrow> json option" where
  "first_truthy d [] = None"
| "first_truthy d (k # ks) =
     (if get_truthy d k then dict_get d k else first_truthy d ks)"

subsection \<open>String methods\<close>

text \<open>
  \<^verbatim>\<open>str.isspace\<close> on one character: the code points 9 to 13, 28 to 32, 133 and 160.
\<close>

definition py_space :: "char \<Rightarrow> bool" where
  "py_space c = (let n = (of_char c :: nat) in
     (9 \<le> n \<and> n \<le> 13) \<or> (28 \<le> n \<and> n \<le> 32) \<or> n = 133 \<or> n = 160)"

text \<open>\<^verbatim>\<open>s.strip(chars)\<close> for a set of characters, and \<^verbatim>\<open>s.strip()\<close>.\<close>

definition strip_by :: "(char \<Rightarrow> bool) \<Rightarrow> string \<Rightarrow> string" where
  "strip_by p s = rev (dropWhile p (rev (dropWhile p s)))"

definition strip :: "string \<Rightarrow> string" where
  "strip s = strip_by py_space s"

text \<open>\<^verbatim>\<open>s.split(c)\<close> for a separator of one character: never the empty list.\<close>

fun split_on :: "char \<Rightarrow> string \<Rightarrow> string list" where
  "split_on c [] = [[]]"
| "split_on c (x # xs) =
     (if x = c then [] # split_on c xs
      else (case split_on c xs of
              [] \<Rightarrow> [[x]]
            | w # ws \<Rightarrow> (x # w) # ws))"

text \<open>\<^verbatim>\<open>needle in haystack\<close> on strings.\<close>

fun contains :: "string \<Rightarrow> string \<Rightarrow> bool" where
  "contains needle [] = (needle = [])"
| "contains needle (x # xs) = (prefix needle (x # xs) \<or> contains needle xs)"

text \<open>\<^verbatim>\<open>s.startswith(p)\<close>.\<close>

definition startswith :: "string \<Rightarrow> string \<Rightarrow> bool" where
  "startswith s p = prefix p s"

text \<open>
  \<^verbatim>\<open>s.lower()\<close> : the letters A to Z, and the Latin-1 capitals 192 to 222 apart from
  the multiplication sign 215, move up by 32.
\<close>

definition lower_char :: "char \<Rightarrow> char" where
  "lower_char c = (let n = (of_char c :: nat) in
     if (65 \<le> n \<and> n \<le> 90) \<or> (192 \<le> n \<and> n \<le> 222 \<and> n \<noteq> 215)
     then char_of (n + 32) else c)"

definition lower :: "string \<Rightarrow> string" where
  "lower s = map lower_char s"

subsection \<open>\<^verbatim>\<open>str(v)\<close> and \<^verbatim>\<open>repr(v)\<close>\<close>

fun digits :: "nat \<Rightarrow> string" where
  "digits n = (if n < 10 then [char_of (48 + n)]
               else digits (n div 10) @ [char_of (48 + n mod 10)])"

definition str_int :: "int \<Rightarrow> string" where
  "str_int i = (if i < 0 then CHR ''-'' # digits (nat (- i)) else digits (nat i))"

definition hex_digit :: "nat \<Rightarrow> char" where
  "hex_digit n = (if n < 10 then char_of (48 + n) else char_of (87 + n))"

text \<open>
  \<^verbatim>\<open>repr\<close> of a string: single quotes, unless the string holds a single quote and no
  double quote; the quote and the backslash are escaped, tab, newline and carriage
  return are written \<^verbatim>\<open>\t\<close>, \<^verbatim>\<open>\n\<close>, \<^verbatim>\<open>\r\<close>, and the other characters that are not
  printable (below 32, 127 to 160, 173) as \<^verbatim>\<open>\xNN\<close>.
\<close>

definition repr_char :: "char \<Rightarrow> char \<Rightarrow> string" where
  "repr_char q c = (let n = (of_char c :: nat) in
     if c = q \<or> c = CHR 0x5C then [CHR 0x5C, c]
     else if n = 9 then [CHR 0x5C, CHR ''t'']
     else if n = 10 then [CHR 0x5C, CHR ''n'']
     else if n = 13 then [CHR 0x5C, CHR ''r'']
     else if n < 32 \<or> (127 \<le> n \<and> n \<le> 160) \<or> n = 173
       then [CHR 0x5C, CHR ''x'', hex_digit (n div 16), hex_digit (n mod 16)]
     else [c])"

definition repr_str :: "string \<Rightarrow> string" where
  "repr_str s = (let q = (if CHR 0x27 \<in> set s \<and> CHR 0x22 \<notin> set s then CHR 0x22 else CHR 0x27)
     in q # concat (map (repr_char q) s) @ [q])"

fun join_with :: "string \<Rightarrow> string list \<Rightarrow> string" where
  "join_with sep [] = []"
| "join_with sep [x] = x"
| "join_with sep (x # y # ys) = x @ sep @ join_with sep (y # ys)"

primrec py_repr :: "json \<Rightarrow> string" where
  "py_repr JNull = ''None''"
| "py_repr (JBool b) = (if b then ''True'' else ''False'')"
| "py_repr (JInt i) = str_int i"
| "py_repr (JStr s) = repr_str s"
| "py_repr (JList xs) = ''['' @ join_with '', '' (map py_repr xs) @ '']''"
| "py_repr (JDict kvs) =
     ''{'' @ join_with '', ''
        (map (\<lambda>(k, r). repr_str k @ '': '' @ r) (map (map_prod (\<lambda>k. k) py_repr) kvs)) @ ''}''"

definition py_str :: "json \<Rightarrow> string" where
  "py_str v = (case v of JStr s \<Rightarrow> s | _ \<Rightarrow> py_repr v)"

section \<open>The canonical job record\<close>

text \<open>
  Every strategy builds a dictionary with the seven keys \<^verbatim>\<open>job_id\<close>, \<^verbatim>\<open>title\<close>,
  \<^verbatim>\<open>location\<close>, \<^verbatim>\<open>posting_date\<close>, \<^verbatim>\<open>url\<close>, \<^verbatim>\<open>company\<close>, \<^verbatim>\<open>scraped_at\<close>. The normalizers
  store some source values as they are, so a field holds any decoded value.
\<close>

record job_record =
  job_id :: json
  title :: json
  location :: json
  posting_date :: json
  url :: json
  company :: json
  scraped_at :: json

section \<open>The record normalizer of \<^verbatim>\<open>workday_simple_api.py\<close>\<close>

text \<open>
  \<^verbatim>\<open>process_job_data\<close> runs inside \<^verbatim>\<open>try: ... except Exception\<close> and returns \<^verbatim>\<open>None\<close>
  when anything raises, so each part below returns \<open>None\<close> where the Python raises.
  \<^verbatim>\<open>urljoin\<close> (of \<^verbatim>\<open>urllib.parse\<close>), the clock and the scraper's \<^verbatim>\<open>base_url\<close> and
  company name are parameters.
\<close>

text \<open>Method 1: the first element of \<^verbatim>\<open>bulletFields\<close> that is a string and not blank.\<close>

fun first_bullet_str :: "json list \<Rightarrow> string" where
  "first_bullet_str [] = []"
| "first_bullet_str (JStr s # fs) = (if strip s \<noteq> [] then strip s else first_bullet_str fs)"
| "first_bullet_str (_ # fs) = first_bullet_str fs"

definition wd_bullet_id :: "(string \<times> json) list \<Rightarrow> string" where
  "wd_bullet_id job =
     (case dict_get job ''bulletFields'' of
        Some (JList fs) \<Rightarrow> first_bullet_str fs
      | _ \<Rightarrow> [])"

text \<open>
  Method 2, on a string: the part after the last underscore when there is one, else
  the last segment of the path without its leading and trailing slashes.
\<close>

definition path_id :: "string \<Rightarrow> string" where
  "path_id p =
     (if CHR ''_'' \<in> set p then last (split_on CHR ''_'' p)
      else last (split_on CHR ''/'' (strip_by (\<lambda>c. c = CHR ''/'') p)))"

text \<open>
  Method 2 on the record. A truthy \<^verbatim>\<open>externalPath\<close> that is not a string raises:
  \<^verbatim>\<open>'_' in 5\<close> is a TypeError, a list or a dict has neither \<^verbatim>\<open>split\<close> nor \<^verbatim>\<open>strip\<close>.
\<close>

definition wd_path_id :: "(string \<times> json) list \<Rightarrow> string option" where
  "wd_path_id job =
     (if get_truthy job ''externalPath'' then
        (case dict_get job ''externalPath'' of
           Some (JStr p) \<Rightarrow> Some (path_id p)
         | _ \<Rightarrow> None)
      else Some [])"

definition wd_id_fields :: "string list" where
  "wd_id_fields = [''id'', ''jobId'', ''postingId'', ''requisitionId'', ''externalJobId'']"

text \<open>Method 3: \<^verbatim>\<open>str\<close> of the first identifier field that is truthy.\<close>

definition explicit_id :: "string list \<Rightarrow> (string \<times> json) list \<Rightarrow> string" where
  "explicit_id names job =
     (case first_truthy job names of None \<Rightarrow> [] | Some v \<Rightarrow> py_str v)"

definition wd_job_id :: "(string \<times> json) list \<Rightarrow> string option" where
  "wd_job_id job =
     (let id1 = wd_bullet_id job in
      if id1 \<noteq> [] then Some id1
      else (case wd_path_id job of
              None \<Rightarrow> None
            | Some id2 \<Rightarrow> if id2 \<noteq> [] then Some id2 else Some (explicit_id wd_id_fields job)))"

definition wd_title_fields :: "string list" where
  "wd_title_fields = [''title'', ''jobTitle'', ''positionTitle'', ''name'', ''jobName'']"

definition wd_title :: "(string \<times> json) list \<Rightarrow> string" where
  "wd_title job =
     (case first_truthy job wd_title_fields of None \<Rightarrow> [] | Some v \<Rightarrow> strip (py_str v))"

text \<open>
  \<^verbatim>\<open>location_text\<close> before \<^verbatim>\<open>.strip()\<close> : a value taken as it is, so \<^verbatim>\<open>.strip()\<close> raises
  unless it is a string.
\<close>

definition name_or_str :: "json \<Rightarrow> json" where
  "name_or_str v = (case v of JDict d \<Rightarrow> get_or d ''name'' (JStr []) | _ \<Rightarrow> JStr (py_str v))"

definition wd_location_text :: "(string \<times> json) list \<Rightarrow> json" where
  "wd_location_text job =
     (if get_truthy job ''locationsText'' then get_or job ''locationsText'' JNull
      else if get_truthy job ''location'' then name_or_str (get_or job ''location'' JNull)
      else if get_truthy job ''primaryLocation'' then name_or_str (get_or job ''primaryLocation'' JNull)
      else JStr [])"

definition wd_location :: "(string \<times> json) list \<Rightarrow> string option" where
  "wd_location job = (case wd_location_text job of JStr s \<Rightarrow> Some (strip s) | _ \<Rightarrow> None)"

definition wd_date_fields :: "string list" where
  "wd_date_fields = [''postedOn'', ''postingDate'', ''datePosted'', ''createdDate'', ''publishedDate'']"

definition wd_posting_date :: "(string \<times> json) list \<Rightarrow> string" where
  "wd_posting_date job =
     (case first_truthy job wd_date_fields of None \<Rightarrow> [] | Some v \<Rightarrow> py_str v)"

text \<open>
  \<^verbatim>\<open>urljoin(base_url, v)\<close> for a truthy \<^verbatim>\<open>v\<close>, as \<^verbatim>\<open>urllib.parse\<close> has it: an empty base
  gives \<^verbatim>\<open>v\<close> back as it is, whatever it is; else a \<^verbatim>\<open>v\<close> that is not a string raises a
  TypeError (\<^verbatim>\<open>Cannot mix str and non-str arguments\<close>); else the two strings are joined,
  which raises a ValueError on some references (a bracket without its partner in the
  host part, for one). The joining of two non-empty strings is the parameter
  \<open>urljoin\<close>, \<open>None\<close> where it raises.
\<close>

definition urljoin_value ::
  "(string \<Rightarrow> string \<Rightarrow> string option) \<Rightarrow> string \<Rightarrow> json \<Rightarrow> json option" where
  "urljoin_value urljoin base_url v =
     (if base_url = [] then Some v
      else (case v of
              JStr p \<Rightarrow> map_option JStr (urljoin base_url p)
            | _ \<Rightarrow> None))"

text \<open>
  The URL: \<^verbatim>\<open>urljoin(base_url, externalPath)\<close> when the path is truthy; else the \<^verbatim>\<open>url\<close>
  field as it is; else the base URL, \<open>sep\<close> and the job id (\<^verbatim>\<open>/job/\<close> here, \<^verbatim>\<open>/\<close> in the
  enhanced scraper); else the empty string the record starts with.
\<close>

definition build_url ::
  "(string \<Rightarrow> string \<Rightarrow> string option) \<Rightarrow> string \<Rightarrow> string \<Rightarrow> (string \<times> json) list \<Rightarrow> string \<Rightarrow> json option" where
  "build_url urljoin base_url sep job jid =
     (if get_truthy job ''externalPath'' then
        urljoin_value urljoin base_url (get_or job ''externalPath'' JNull)
      else if get_truthy job ''url'' then dict_get job ''url''
      else if jid \<noteq> [] then Some (JStr (base_url @ sep @ jid))
      else Some (JStr []))"

text \<open>
  \<^verbatim>\<open>SimpleWorkdayAPIJobScraper.process_job_data\<close>. A value that is not a dictionary has
  no \<^verbatim>\<open>get\<close>, which raises. The record is returned only when its title is not empty.
\<close>

definition wd_process_job_data ::
  "(string \<Rightarrow> string \<Rightarrow> string option) \<Rightarrow> string \<Rightarrow> string \<Rightarrow> string \<Rightarrow> json \<Rightarrow> job_record option" where
  "wd_process_job_data urljoin base_url company_name now raw =
     (case raw of
        JDict job \<Rightarrow>
          (case wd_job_id job of
             None \<Rightarrow> None
           | Some jid \<Rightarrow>
               (case wd_location job of
                  None \<Rightarrow> None
                | Some loc \<Rightarrow>
                    (case build_url urljoin base_url ''/job/'' job jid of
                       None \<Rightarrow> None
                     | Some u \<Rightarrow>
                         if wd_title job \<noteq> [] then
                           Some \<lparr>job_id = JStr jid, title = JStr (wd_title job),
                                 location = JStr loc, posting_date = JStr (wd_posting_date job),
                                 url = u, company = JStr company_name, scraped_at = JStr now\<rparr>
                         else None)))
      | _ \<Rightarrow> None)"

section \<open>The record normalizer of \<^verbatim>\<open>enhanced_pulte_scraper.py\<close>\<close>

definition en_id_fields :: "string list" where
  "en_id_fields = [''id'', ''jobId'', ''postingId'', ''requisitionId'']"

definition en_title_fields :: "string list" where
  "en_title_fields = [''title'', ''jobTitle'', ''positionTitle'', ''name'']"

definition en_date_fields :: "string list" where
  "en_date_fields = [''postedOn'', ''postingDate'', ''datePosted'', ''createdDate'']"

text \<open>The first truthy field as it is (no \<^verbatim>\<open>str\<close>), else the empty string.\<close>

definition raw_field :: "string list \<Rightarrow> (string \<times> json) list \<Rightarrow> json" where
  "raw_field names job = (case first_truthy job names of None \<Rightarrow> JStr [] | Some v \<Rightarrow> v)"

text \<open>
  The scan of \<^verbatim>\<open>bulletFields\<close> for a location: each entry must be a dictionary (else
  \<^verbatim>\<open>field.get\<close> raises) whose \<^verbatim>\<open>type\<close> is a string (else \<^verbatim>\<open>.lower()\<close> raises); the first
  entry whose lowered type holds \<^verbatim>\<open>location\<close> gives its \<^verbatim>\<open>value\<close>.
\<close>

fun bullet_location :: "json list \<Rightarrow> json option" where
  "bullet_location [] = Some (JStr [])"
| "bullet_location (JDict f # fs) =
     (case get_or f ''type'' (JStr []) of
        JStr t \<Rightarrow> if contains ''location'' (lower t) then Some (get_or f ''value'' (JStr []))
                  else bullet_location fs
      | _ \<Rightarrow> None)"
| "bullet_location (_ # fs) = None"

text \<open>
  A truthy \<^verbatim>\<open>bulletFields\<close> that is not a list: iterating a string or a dictionary
  yields strings, which have no \<^verbatim>\<open>get\<close>; an integer or \<^verbatim>\<open>True\<close> is not iterable.
\<close>

definition en_location :: "(string \<times> json) list \<Rightarrow> json option" where
  "en_location job =
     (if get_truthy job ''locationsText'' then dict_get job ''locationsText''
      else if get_truthy job ''location'' then Some (name_or_str (get_or job ''location'' JNull))
      else if get_truthy job ''bulletFields'' then
        (case dict_get job ''bulletFields'' of
           Some (JList fs) \<Rightarrow> bullet_location fs
         | _ \<Rightarrow> None)
      else Some (JStr []))"

text \<open>
  \<^verbatim>\<open>EnhancedPulteJobScraper.process_job_data\<close>. It returns the record whenever nothing
  raised: there is no test of the title.
\<close>

definition en_process_job_data ::
  "(string \<Rightarrow> string \<Rightarrow> string option) \<Rightarrow> string \<Rightarrow> string \<Rightarrow> json \<Rightarrow> job_record option" where
  "en_process_job_data urljoin base_url now raw =
     (case raw of
        JDict job \<Rightarrow>
          (let jid = explicit_id en_id_fields job in
           case en_location job of
             None \<Rightarrow> None
           | Some loc \<Rightarrow>
               (case build_url urljoin base_url ''/'' job jid of
                  None \<Rightarrow> None
                | Some u \<Rightarrow>
                    Some \<lparr>job_id = JStr jid, title = raw_field en_title_fields job,
                          location = loc, posting_date = raw_field en_date_fields job,
                          url = u, company = JStr ''PulteGroup'', scraped_at = JStr now\<rparr>))
      | _ \<Rightarrow> None)"

section \<open>Concrete inputs\<close>

text \<open>
  \<^verbatim>\<open>urllib.parse.urljoin\<close> on plain arguments: a base \<^verbatim>\<open>http://host/path\<close> or
  \<^verbatim>\<open>https://host/path\<close> and a reference that is not empty, both written with letters,
  digits and the characters \<^verbatim>\<open>- _ . / ~\<close> only (no colon, question mark, hash, semicolon,
  bracket or blank), so that the reference has no scheme, query, fragment or
  parameters of its own. The function follows the library line by line on such
  arguments and never raises there. On any other argument it gives \<open>None\<close> and does not
  stand for the library; the concrete inputs below are plain.
\<close>

definition plain_char :: "char \<Rightarrow> bool" where
  "plain_char c = (let n = (of_char c :: nat) in
     (48 \<le> n \<and> n \<le> 57) \<or> (65 \<le> n \<and> n \<le> 90) \<or> (97 \<le> n \<and> n \<le> 122) \<or>
     c = CHR ''-'' \<or> c = CHR ''_'' \<or> c = CHR ''.'' \<or> c = CHR ''/'' \<or> c = CHR ''~'')"

text \<open>
  \<^verbatim>\<open>segments[1:-1] = filter(None, segments[1:-1])\<close> : the empty segments between the
  first and the last one are dropped.
\<close>

definition squeeze_segments :: "string list \<Rightarrow> string list" where
  "squeeze_segments segs =
     (if length segs < 2 then segs
      else hd segs # filter (\<lambda>g. g \<noteq> []) (butlast (tl segs)) @ [last segs])"

text \<open>
  The loop over the segments: \<^verbatim>\<open>..\<close> pops the last resolved segment, if there is one,
  \<^verbatim>\<open>.\<close> is skipped, any other segment is appended.
\<close>

fun resolve_segments :: "string list \<Rightarrow> string list \<Rightarrow> string list" where
  "resolve_segments resolved [] = resolved"
| "resolve_segments resolved (g # gs) =
     (if g = ''..'' then resolve_segments (butlast resolved) gs
      else if g = ''.'' then resolve_segments resolved gs
      else resolve_segments (resolved @ [g]) gs)"

text \<open>The scheme of a plain base and what follows \<^verbatim>\<open>://\<close>.\<close>

definition split_scheme :: "string \<Rightarrow> (string \<times> string) option" where
  "split_scheme base =
     (if startswith base ''https://'' then Some (''https'', drop 8 base)
      else if startswith base ''http://'' then Some (''http'', drop 7 base)
      else None)"

definition urljoin_plain :: "string \<Rightarrow> string \<Rightarrow> string option" where
  "urljoin_plain base ref =
     (case split_scheme base of
        None \<Rightarrow> None
      | Some (scheme, rest) \<Rightarrow>
          (let bnetloc = takeWhile (\<lambda>c. c \<noteq> CHR ''/'') rest;
               bpath = dropWhile (\<lambda>c. c \<noteq> CHR ''/'') rest
           in if bnetloc = [] \<or> \<not> list_all plain_char rest \<or> ref = [] \<or> \<not> list_all plain_char ref
              then None
              else
                (let netloc = (if startswith ref ''//''
                               then takeWhile (\<lambda>c. c \<noteq> CHR ''/'') (drop 2 ref) else []);
                     path = (if startswith ref ''//''
                             then dropWhile (\<lambda>c. c \<noteq> CHR ''/'') (drop 2 ref) else ref)
                 in if netloc \<noteq> [] then Some (scheme @ ''://'' @ netloc @ path)
                    else if path = [] then Some (scheme @ ''://'' @ bnetloc @ bpath)
                    else
                      (let parts = split_on CHR ''/'' bpath;
                           base_parts = (if last parts \<noteq> [] then butlast parts else parts);
                           segments = (if startswith path ''/'' then split_on CHR ''/'' path
                                       else squeeze_segments (base_parts @ split_on CHR ''/'' path));
                           resolved = resolve_segments [] segments;
                           resolved' = (if last segments = ''.'' \<or> last segments = ''..''
                                        then resolved @ [[]] else resolved);
                           joined = join_with ''/'' resolved';
                           new_path = (if joined = [] then ''/'' else joined)
                       in Some (scheme @ ''://'' @ bnetloc @
                                (if startswith new_path ''/'' then new_path
                                 else CHR ''/'' # new_path))))))"

text \<open>The default \<^verbatim>\<open>base_url\<close> of all three scrapers.\<close>

definition pulte_base :: string where
  "pulte_base = ''https://pultegroup.wd1.myworkdayjobs.com/PGI''"

text \<open>A record with a title, an explicit identifier and a path.\<close>

definition job_with_id_and_path :: "(string \<times> json) list" where
  "job_with_id_and_path =
     [(''title'', JStr ''Site Engineer''), (''id'', JStr ''REQ-1''),
      (''externalPath'', JStr ''/job/Dallas-TX/Site-Engineer_JR4032'')]"

text \<open>A record with a title and a path only.\<close>

definition job_with_path :: "(string \<times> json) list" where
  "job_with_path =
     [(''title'', JStr ''Site Engineer''),
      (''externalPath'', JStr ''/job/Dallas-TX/Site-Engineer_JR4032'')]"

text \<open>
  A record with bullet fields (a number, a blank string, then two identifiers), an
  explicit identifier and a path.
\<close>

definition job_with_bullets :: "(string \<times> json) list" where
  "job_with_bullets =
     [(''title'', JStr ''Site Engineer''),
      (''bulletFields'', JList [JInt 7, JStr ''  '', JStr '' JR4032 '', JStr ''R-9'']),
      (''id'', JStr ''REQ-1''),
      (''externalPath'', JStr ''/job/Dallas-TX/Site-Engineer_JR77'')]"

text \<open>A record whose path has no underscore and ends with a slash.\<close>

definition job_with_segment :: "(string \<times> json) list" where
  "job_with_segment =
     [(''title'', JStr ''Site Engineer''), (''externalPath'', JStr ''/job/Dallas-TX/JR4032/'')]"

text \<open>
  A record with identifier fields only: an empty \<^verbatim>\<open>id\<close>, a numeric \<^verbatim>\<open>jobId\<close> and a
  \<^verbatim>\<open>postingId\<close>.
\<close>

definition job_with_ids :: "(string \<times> json) list" where
  "job_with_ids =
     [(''title'', JStr ''Site Engineer''), (''postingId'', JStr ''P-1''),
      (''jobId'', JInt 4032), (''id'', JStr [])]"

section \<open>The job id as the specification words it\<close>

text \<open>
  The part of a path that the specification names: the suffix after the last
  underscore; for a path without underscore, the trailing segment of the path once its
  outer slashes are stripped.
\<close>

definition path_tail :: "string \<Rightarrow> string \<Rightarrow> bool" where
  "path_tail p t =
     (if CHR ''_'' \<in> set p then CHR ''_'' \<notin> set t \<and> suffix (CHR ''_'' # t) p
      else CHR ''/'' \<notin> set t \<and>
           (strip_by (\<lambda>c. c = CHR ''/'') p = t \<or>
            suffix (CHR ''/'' # t) (strip_by (\<lambda>c. c = CHR ''/'') p)))"

text \<open>
  The specification's order of the methods, for comparison with the code: an explicit
  identifier field first, then the part of \<^verbatim>\<open>externalPath\<close>, then the last segment of
  the built URL.
\<close>

definition spec_job_id :: "(string \<times> json) list \<Rightarrow> json \<Rightarrow> string" where
  "spec_job_id job built_url =
     (if explicit_id wd_id_fields job \<noteq> [] then explicit_id wd_id_fields job
      else (case dict_get job ''externalPath'' of
              Some (JStr p) \<Rightarrow>
                if path_id p \<noteq> [] then path_id p
                else (case built_url of JStr u \<Rightarrow> last (split_on CHR ''/'' u) | _ \<Rightarrow> [])
            | _ \<Rightarrow> (case built_url of JStr u \<Rightarrow> last (split_on CHR ''/'' u) | _ \<Rightarrow> [])))"

section \<open>Classifying a response body: \<^verbatim>\<open>is_job_data\<close>\<close>

definition job_fields :: "string list" where
  "job_fields = [''title'', ''location'', ''id'', ''jobTitle'', ''position'']"

definition job_containers :: "string list" where
  "job_containers = [''jobPostings'', ''jobs'', ''data'', ''results'', ''items'']"

definition is_list :: "json \<Rightarrow> bool" where
  "is_list v = (case v of JList _ \<Rightarrow> True | _ \<Rightarrow> False)"

text \<open>\<^verbatim>\<open>container in data and isinstance(data[container], list)\<close>.\<close>

definition holds_list :: "(string \<times> json) list \<Rightarrow> string \<Rightarrow> bool" where
  "holds_list d c = (case dict_get d c of Some v \<Rightarrow> is_list v | None \<Rightarrow> False)"

text \<open>
  \<^verbatim>\<open>EnhancedPulteJobScraper.is_job_data\<close>. An empty list is falsy and is not a
  dictionary; a list whose first item is not a dictionary falls through to the final
  \<^verbatim>\<open>return False\<close>.
\<close>

definition is_job_data :: "json \<Rightarrow> bool" where
  "is_job_data data_v =
     (case data_v of
        JList (first_item # rest) \<Rightarrow>
          (case first_item of
             JDict item \<Rightarrow> list_ex (has_key item) job_fields
           | _ \<Rightarrow> False)
      | JDict d \<Rightarrow>
          (if list_ex (holds_list d) job_containers then True
           else list_ex (has_key d) job_fields)
      | _ \<Rightarrow> False)"

text \<open>
  The classification as the specification words it: a list whose first element is an
  object with a job-identifying key; or a dictionary with a container key whose value
  is such a list; or a dictionary that itself has a job-identifying key.
\<close>

definition job_list :: "json \<Rightarrow> bool" where
  "job_list v =
     (case v of
        JList (JDict item # rest) \<Rightarrow> list_ex (has_key item) job_fields
      | _ \<Rightarrow> False)"

definition spec_is_job_data :: "json \<Rightarrow> bool" where
  "spec_is_job_data v =
     (job_list v \<or>
      (case v of
         JDict d \<Rightarrow>
           list_ex (\<lambda>c. case dict_get d c of Some x \<Rightarrow> job_list x | None \<Rightarrow> False) job_containers
           \<or> list_ex (has_key d) job_fields
       | _ \<Rightarrow> False))"

section \<open>Cleaning a value for the CSV file: \<^verbatim>\<open>save_to_csv\<close>\<close>

text \<open>
  \<^verbatim>\<open>value.strip().replace('\n', ' ').replace('\r', '')\<close>, the same line in all three
  scrapers: the line feed (code point 10) becomes a space, the carriage return (code
  point 13) is deleted.
\<close>

definition replace_lf :: "string \<Rightarrow> string" where
  "replace_lf s = map (\<lambda>c. if c = CHR 0x0A then CHR '' '' else c) s"

definition remove_cr :: "string \<Rightarrow> string" where
  "remove_cr s = filter (\<lambda>c. c \<noteq> CHR 0x0D) s"

definition clean_str :: "string \<Rightarrow> string" where
  "clean_str s = remove_cr (replace_lf (strip s))"

text \<open>\<^verbatim>\<open>if isinstance(value, str): value = ...\<close> : other values are written as they are.\<close>

definition clean_value :: "json \<Rightarrow> json" where
  "clean_value v = (case v of JStr s \<Rightarrow> JStr (clean_str s) | _ \<Rightarrow> v)"

text \<open>
  The row handed to \<^verbatim>\<open>csv.DictWriter.writerow\<close>, in the order of \<^verbatim>\<open>fieldnames\<close>:
  \<^verbatim>\<open>job_id, title, location, posting_date, url, company, scraped_at\<close>.
\<close>

definition field_values :: "job_record \<Rightarrow> json list" where
  "field_values job =
     [job_id job, title job, location job, posting_date job, url job, company job,
      scraped_at job]"

definition csv_row :: "job_record \<Rightarrow> json list" where
  "csv_row job = map clean_value (field_values job)"

text \<open>
  \<^verbatim>\<open>save_to_csv\<close> : nothing is written for an empty list of jobs; else one row per job,
  in order (the header row and the file name are left out).
\<close>

definition save_to_csv :: "job_record list \<Rightarrow> json list list option" where
  "save_to_csv jobs = (if jobs = [] then None else Some (map csv_row jobs))"

text \<open>
  The cleaning as the specification words it: the value trimmed, and every newline and
  carriage return replaced by one space.
\<close>

definition spec_clean_str :: "string \<Rightarrow> string" where
  "spec_clean_str s =
     map (\<lambda>c. if c = CHR 0x0A \<or> c = CHR 0x0D then CHR '' '' else c) (strip s)"

text \<open>A record whose title carries surrounding blanks, a line feed and a carriage return.\<close>

definition untidy_title :: string where
  "untidy_title =
     [CHR '' '', CHR ''S'', CHR ''i'', CHR ''t'', CHR ''e'', CHR 0x0A,
      CHR ''E'', CHR ''n'', CHR ''g'', CHR 0x0D, CHR 0x0A]"

definition untidy_job :: job_record where
  "untidy_job =
     \<lparr>job_id = JStr ''JR4032'', title = JStr untidy_title,
      location = JStr ''Dallas, TX'', posting_date = JNull,
      url = JStr ''https://pultegroup.wd1.myworkdayjobs.com/PGI/job/JR4032'',
      company = JStr ''PulteGroup'', scraped_at = JStr ''2024-05-01T09:00:00''\<rparr>"

section \<open>The markup strategy of \<^verbatim>\<open>simple_pulte_scraper.py\<close>\<close>

text \<open>
  \<^verbatim>\<open>extract_job_from_element\<close> sees a parsed element through five operations of the
  parser library: \<^verbatim>\<open>element.name\<close>, \<^verbatim>\<open>element.get_text(strip=True)\<close>,
  \<^verbatim>\<open>element.select_one(selector)\<close>, \<^verbatim>\<open>element.find('a', href=True)\<close> and
  \<^verbatim>\<open>element.get(attr)\<close>. They are the fields of a record over an abstract type of
  elements. The attributes read here (\<^verbatim>\<open>href\<close>, \<^verbatim>\<open>id\<close>, \<^verbatim>\<open>data-job-id\<close>,
  \<^verbatim>\<open>data-automation-id\<close>) have string values.
\<close>

record 'e dom =
  name_of :: "'e \<Rightarrow> string"
  get_text :: "'e \<Rightarrow> string"
  select_one :: "'e \<Rightarrow> string \<Rightarrow> 'e option"
  find_link :: "'e \<Rightarrow> 'e option"
  get_attr :: "'e \<Rightarrow> string \<Rightarrow> string option"

text \<open>
  The loop \<^verbatim>\<open>for selector in selectors: elem = element.select_one(selector); if elem and
  elem.get_text(strip=True): ...; break\<close> : the text of the first selected element whose
  text is not empty, else the empty string.
\<close>

fun first_selected :: "'e dom \<Rightarrow> 'e \<Rightarrow> string list \<Rightarrow> string" where
  "first_selected D e [] = []"
| "first_selected D e (sel # sels) =
     (case select_one D e sel of
        Some c \<Rightarrow> if get_text D c \<noteq> [] then get_text D c else first_selected D e sels
      | None \<Rightarrow> first_selected D e sels)"

text \<open>The selector \<^verbatim>\<open>[data-automation-id*="w"]\<close>, with its two double quotes.\<close>

definition automation_selector :: "string \<Rightarrow> string" where
  "automation_selector w = ''[data-automation-id*='' @ [CHR 0x22] @ w @ [CHR 0x22] @ '']''"

definition title_selectors :: "string list" where
  "title_selectors =
     [''h1'', ''h2'', ''h3'', ''h4'', ''.title'', ''.job-title'', automation_selector ''title'']"

definition location_selectors :: "string list" where
  "location_selectors = [''.location'', ''.job-location'', automation_selector ''location'']"

definition date_selectors :: "string list" where
  "date_selectors = [''.date'', ''.job-date'', automation_selector ''date'']"

definition title_words :: "string list" where
  "title_words =
     [''engineer'', ''manager'', ''analyst'', ''specialist'', ''coordinator'', ''director'',
      ''associate'']"

text \<open>
  \<^verbatim>\<open>title_text\<close> after the three methods: the text of an anchor; else the first selected
  title; else the element's own text when it is shorter than 200 characters and holds
  one of the title words.
\<close>

definition title_text :: "'e dom \<Rightarrow> 'e \<Rightarrow> string" where
  "title_text D e =
     (let t1 = (if name_of D e = ''a'' \<and> get_text D e \<noteq> [] then get_text D e else []);
          t2 = (if t1 = [] then first_selected D e title_selectors else t1)
      in if t2 = [] then
           (let text = get_text D e
            in if text \<noteq> [] \<and> length text < 200 \<and>
                  list_ex (\<lambda>word. contains word (lower text)) title_words
               then text else [])
         else t2)"

text \<open>
  \<^verbatim>\<open>urljoin(self.base_url, href)\<close> on a string that is not empty: an empty base gives the
  reference back; else the two strings are joined, \<open>None\<close> where that raises.
\<close>

definition urljoin_str :: "(string \<Rightarrow> string \<Rightarrow> string option) \<Rightarrow> string \<Rightarrow> string \<Rightarrow> string option" where
  "urljoin_str urljoin base_url href = (if base_url = [] then Some href else urljoin base_url href)"

text \<open>The URL of a reference: joined when it starts with a slash, kept when it starts
  with \<^verbatim>\<open>http\<close>, else the empty string the record starts with.\<close>

definition href_url :: "(string \<Rightarrow> string \<Rightarrow> string option) \<Rightarrow> string \<Rightarrow> string \<Rightarrow> string option" where
  "href_url urljoin base_url href =
     (if startswith href ''/'' then urljoin_str urljoin base_url href
      else if startswith href ''http'' then Some href
      else Some [])"

text \<open>
  The URL found below an element: the \<^verbatim>\<open>href\<close> of the first anchor below it that has
  one (\<^verbatim>\<open>link['href']\<close> raises when the attribute is missing).
\<close>

definition link_url ::
  "'e dom \<Rightarrow> (string \<Rightarrow> string \<Rightarrow> string option) \<Rightarrow> string \<Rightarrow> 'e \<Rightarrow> string option" where
  "link_url D urljoin base_url e =
     (case find_link D e of
        None \<Rightarrow> Some []
      | Some link \<Rightarrow>
          (case get_attr D link ''href'' of
             None \<Rightarrow> None
           | Some href \<Rightarrow> href_url urljoin base_url href))"

text \<open>
  The URL of an element: its own \<^verbatim>\<open>href\<close> when it is an anchor with a truthy one, else
  the URL found below it.
\<close>

definition element_url ::
  "'e dom \<Rightarrow> (string \<Rightarrow> string \<Rightarrow> string option) \<Rightarrow> string \<Rightarrow> 'e \<Rightarrow> string option" where
  "element_url D urljoin base_url e =
     (case (if name_of D e = ''a'' then get_attr D e ''href'' else None) of
        Some href \<Rightarrow>
          if href \<noteq> [] then href_url urljoin base_url href else link_url D urljoin base_url e
      | None \<Rightarrow> link_url D urljoin base_url e)"

text \<open>
  The id from the URL: the last part between slashes that is not empty, does not start
  with \<^verbatim>\<open>http\<close> and is longer than 3 characters.
\<close>

definition url_job_id :: "string \<Rightarrow> string" where
  "url_job_id u =
     (case find (\<lambda>part. part \<noteq> [] \<and> \<not> startswith part ''http'' \<and> 3 < length part)
             (rev (split_on CHR ''/'' u)) of
        Some part \<Rightarrow> part
      | None \<Rightarrow> [])"

text \<open>The id from the attributes: the first truthy one of three.\<close>

fun attr_job_id :: "'e dom \<Rightarrow> 'e \<Rightarrow> string list \<Rightarrow> string" where
  "attr_job_id D e [] = []"
| "attr_job_id D e (a # as) =
     (case get_attr D e a of
        Some v \<Rightarrow> if v \<noteq> [] then v else attr_job_id D e as
      | None \<Rightarrow> attr_job_id D e as)"

definition element_job_id :: "'e dom \<Rightarrow> 'e \<Rightarrow> string \<Rightarrow> string" where
  "element_job_id D e u =
     (let id1 = (if u \<noteq> [] then url_job_id u else [])
      in if id1 = [] then attr_job_id D e [''data-job-id'', ''id'', ''data-automation-id'']
         else id1)"

text \<open>
  \<^verbatim>\<open>extract_job_from_element\<close>. The title is cut to 200 characters. The record is
  returned only when its title is truthy and longer than 3 characters once trimmed;
  \<open>None\<close> also stands for an exception, which the function catches.
\<close>

definition extract_job_from_element ::
  "'e dom \<Rightarrow> (string \<Rightarrow> string \<Rightarrow> string option) \<Rightarrow> string \<Rightarrow> string \<Rightarrow> 'e \<Rightarrow> job_record option" where
  "extract_job_from_element D urljoin base_url now e =
     (let t = take 200 (title_text D e);
          loc = first_selected D e location_selectors;
          date = first_selected D e date_selectors
      in case element_url D urljoin base_url e of
           None \<Rightarrow> None
         | Some u \<Rightarrow>
             if t \<noteq> [] \<and> 3 < length (strip t) then
               Some \<lparr>job_id = JStr (element_job_id D e u), title = JStr t, location = JStr loc,
                     posting_date = JStr date, url = JStr u, company = JStr ''PulteGroup'',
                     scraped_at = JStr now\<rparr>
             else None)"

text \<open>
  The loop that removes duplicates: \<^verbatim>\<open>seen\<close> is the set of the pairs of title and URL
  met so far, \<^verbatim>\<open>unique_jobs\<close> the list built by \<^verbatim>\<open>append\<close>.
\<close>

fun unique_loop ::
  "(json \<times> json) set \<Rightarrow> job_record list \<Rightarrow> job_record list \<Rightarrow> job_record list" where
  "unique_loop seen unique_jobs [] = unique_jobs"
| "unique_loop seen unique_jobs (job # jobs) =
     (if (title job, url job) \<in> seen then unique_loop seen unique_jobs jobs
      else unique_loop (insert (title job, url job) seen) (unique_jobs @ [job]) jobs)"

text \<open>
  The records extracted from the elements, in the order in which the elements are
  visited: \<^verbatim>\<open>if job_data and job_data.get('title'): jobs.append(job_data)\<close>.
\<close>

definition extracted_jobs ::
  "'e dom \<Rightarrow> (string \<Rightarrow> string \<Rightarrow> string option) \<Rightarrow> string \<Rightarrow> string \<Rightarrow> 'e list \<Rightarrow> job_record list" where
  "extracted_jobs D urljoin base_url now elements =
     filter (\<lambda>job. truthy (title job))
       (List.map_filter (extract_job_from_element D urljoin base_url now) elements)"

text \<open>
  \<^verbatim>\<open>parse_jobs_from_html\<close> from the list \<^verbatim>\<open>all_elements\<close> on: the parsing of the page and
  the three searches that collect the elements are the parser library's work, and the
  list comes out of a \<^verbatim>\<open>set\<close>, in an order the code does not fix.
\<close>

definition parse_jobs_from_html ::
  "'e dom \<Rightarrow> (string \<Rightarrow> string \<Rightarrow> string option) \<Rightarrow> string \<Rightarrow> string \<Rightarrow> 'e list \<Rightarrow> job_record list" where
  "parse_jobs_from_html D urljoin base_url now all_elements =
     unique_loop {} [] (extracted_jobs D urljoin base_url now all_elements)"

text \<open>
  A page seen through the five operations, its elements numbered:

  \<^item> 0 is \<^verbatim>\<open><div class="job">\<close> holding the heading 10 (\<^verbatim>\<open><h3>Site Engineer</h3>\<close>), the
    anchor 11 (\<^verbatim>\<open><a href="/job/Dallas-TX/Site-Engineer_JR4032">Apply</a>\<close>) and the span 12
    (\<^verbatim>\<open><span class="location">Dallas, TX</span>\<close>);
  \<^item> 1 is \<^verbatim>\<open><a href="/job/Austin-TX/Project-Manager_JR5001">Project Manager</a>\<close>;
  \<^item> 2 is a second \<^verbatim>\<open><div class="job">\<close> with the same heading (20) and anchor (21) as 0
    and the span 22 (\<^verbatim>\<open><span class="location">Dallas</span>\<close>);
  \<^item> 3 is \<^verbatim>\<open><a href="/careers/ceo">CEO</a>\<close>.
\<close>

definition sample_names :: "(nat \<times> string) list" where
  "sample_names =
     [(0, ''div''), (10, ''h3''), (11, ''a''), (12, ''span''), (1, ''a''),
      (2, ''div''), (20, ''h3''), (21, ''a''), (22, ''span''), (3, ''a'')]"

definition sample_texts :: "(nat \<times> string) list" where
  "sample_texts =
     [(0, ''Site EngineerApplyDallas, TX''), (10, ''Site Engineer''), (11, ''Apply''),
      (12, ''Dallas, TX''), (1, ''Project Manager''),
      (2, ''Site EngineerApplyDallas''), (20, ''Site Engineer''), (21, ''Apply''),
      (22, ''Dallas''), (3, ''CEO'')]"

definition sample_selected :: "((nat \<times> string) \<times> nat) list" where
  "sample_selected =
     [((0, ''h3''), 10), ((0, ''.location''), 12), ((2, ''h3''), 20), ((2, ''.location''), 22)]"

definition sample_links :: "(nat \<times> nat) list" where
  "sample_links = [(0, 11), (2, 21)]"

definition sample_attrs :: "((nat \<times> string) \<times> string) list" where
  "sample_attrs =
     [((11, ''href''), ''/job/Dallas-TX/Site-Engineer_JR4032''),
      ((21, ''href''), ''/job/Dallas-TX/Site-Engineer_JR4032''),
      ((1, ''href''), ''/job/Austin-TX/Project-Manager_JR5001''),
      ((3, ''href''), ''/careers/ceo'')]"

definition sample_dom :: "nat dom" where
  "sample_dom =
     \<lparr>name_of = (\<lambda>e. case map_of sample_names e of Some x \<Rightarrow> x | None \<Rightarrow> []),
      get_text = (\<lambda>e. case map_of sample_texts e of Some x \<Rightarrow> x | None \<Rightarrow> []),
      select_one = (\<lambda>e sel. map_of sample_selected (e, sel)),
      find_link = map_of sample_links,
      get_attr = (\<lambda>e a. map_of sample_attrs (e, a))\<rparr>"

definition sample_now :: string where
  "sample_now = ''2024-05-01T09:00:00''"

definition site_engineer_job :: "string \<Rightarrow> job_record" where
  "site_engineer_job loc =
     \<lparr>job_id = JStr ''Site-Engineer_JR4032'', title = JStr ''Site Engineer'',
      location = JStr loc, posting_date = JStr [],
      url = JStr ''https://pultegroup.wd1.myworkdayjobs.com/job/Dallas-TX/Site-Engineer_JR4032'',
      company = JStr ''PulteGroup'', scraped_at = JStr sample_now\<rparr>"

definition project_manager_job :: job_record where
  "project_manager_job =
     \<lparr>job_id = JStr ''Project-Manager_JR5001'', title = JStr ''Project Manager'',
      location = JStr [], posting_date = JStr [],
      url = JStr ''https://pultegroup.wd1.myworkdayjobs.com/job/Austin-TX/Project-Manager_JR5001'',
      company = JStr ''PulteGroup'', scraped_at = JStr sample_now\<rparr>"

section \<open>The transport: requests with retries\<close>

text \<open>
  One attempt either raises a \<^verbatim>\<open>requests.exceptions.RequestException\<close> (a connection
  error, a timeout, ...) or gives a response, of which the scrapers read the status
  code and the decoded body (\<open>None\<close> where \<^verbatim>\<open>response.json()\<close> raises a
  \<^verbatim>\<open>JSONDecodeError\<close>). The environment of a call is the outcome of its attempts,
  counted from 0. What a call does besides returning is a list of events: the requests
  it sends and its calls of \<^verbatim>\<open>time.sleep\<close>. The delay is a real number (a Python float,
  without its rounding).
\<close>

record response =
  status_code :: int
  json_body :: "json option"

datatype attempt = RequestFailed | Responded response

datatype io_event = Sent nat | Slept real

datatype py_exn = ValueError | AttributeError | TypeError


text \<open>
  What follows a failed attempt \<open>k\<close> : \<^verbatim>\<open>time.sleep(self.delay * (attempt + 1))\<close> when
  \<^verbatim>\<open>attempt < self.max_retries - 1\<close>.
\<close>

definition after_failure :: "int \<Rightarrow> real \<Rightarrow> nat \<Rightarrow> io_event list" where
  "after_failure max_retries delay k =
     (if int k < max_retries - 1 then [Slept (delay * (real k + 1))] else [])"

text \<open>
  The three cases of \<^verbatim>\<open>method.upper()\<close> in \<^verbatim>\<open>make_request\<close> of the enhanced scraper:
  \<^verbatim>\<open>'GET'\<close>, \<^verbatim>\<open>'POST'\<close>, anything else.
\<close>

datatype http_method = GET | POST | Unsupported





text \<open>
  \<^verbatim>\<open>SimpleWorkdayAPIJobScraper.make_api_request\<close> : a \<^verbatim>\<open>POST\<close>; the decoded body is
  returned when the status is 200 and the body decodes; a status other than 200 and a
  body that does not decode are failed attempts like a \<^verbatim>\<open>RequestException\<close>.
\<close>

fun wd_request_loop ::
  "int \<Rightarrow> real \<Rightarrow> (nat \<Rightarrow> attempt) \<Rightarrow> nat list \<Rightarrow> io_event list \<Rightarrow>
   json option \<times> io_event list" where
  "wd_request_loop max_retries delay env [] events = (None, events)"
| "wd_request_loop max_retries delay env (k # ks) events =
     (case env k of
        Responded r \<Rightarrow>
          (if status_code r = 200 then
             (case json_body r of
                Some body \<Rightarrow> (Some body, events @ [Sent k])
              | None \<Rightarrow>
                  wd_request_loop max_retries delay env ks
                    (events @ Sent k # after_failure max_retries delay k))
           else wd_request_loop max_retries delay env ks
                  (events @ Sent k # after_failure max_retries delay k))
      | RequestFailed \<Rightarrow>
          wd_request_loop max_retries delay env ks
            (events @ Sent k # after_failure max_retries delay k))"

definition make_api_request ::
  "int \<Rightarrow> real \<Rightarrow> (nat \<Rightarrow> attempt) \<Rightarrow> json option \<times> io_event list" where
  "make_api_request max_retries delay env = wd_request_loop max_retries delay env [0..<nat max_retries] []"

section \<open>Pagination in \<^verbatim>\<open>workday_simple_api.py\<close>\<close>

text \<open>The page size: \<^verbatim>\<open>limit = 20\<close> in both paginating scrapers.\<close>

definition page_limit :: nat where
  "page_limit = 20"

text \<open>Iterating a dictionary yields its keys, each once.\<close>

fun keys_of :: "(string \<times> json) list \<Rightarrow> string list" where
  "keys_of [] = []"
| "keys_of ((k, v) # kvs) = k # filter (\<lambda>k'. k' \<noteq> k) (keys_of kvs)"

text \<open>
  \<^verbatim>\<open>extract_jobs_from_api_response\<close>, with the record normalizer as a parameter. A
  result that is not a dictionary has no \<^verbatim>\<open>get\<close> (the caller passes truthy results
  only). A truthy \<^verbatim>\<open>jobPostings\<close> that is a number has no \<^verbatim>\<open>len\<close>; a string is iterated
  by characters, a dictionary by keys.
\<close>

definition extract_jobs_from_api_response ::
  "(json \<Rightarrow> job_record option) \<Rightarrow> json \<Rightarrow> py_exn + job_record list" where
  "extract_jobs_from_api_response process data_v =
     (case data_v of
        JDict d \<Rightarrow>
          (case get_or d ''jobPostings'' (JList []) of
             JList xs \<Rightarrow> Inr (List.map_filter process xs)
           | JStr s \<Rightarrow> Inr (List.map_filter process (map (\<lambda>c. JStr [c]) s))
           | JDict kvs \<Rightarrow> Inr (List.map_filter process (map JStr (keys_of kvs)))
           | JNull \<Rightarrow> Inr []
           | JBool b \<Rightarrow> if b then Inl TypeError else Inr []
           | JInt i \<Rightarrow> if i \<noteq> 0 then Inl TypeError else Inr [])
      | _ \<Rightarrow> Inl AttributeError)"

text \<open>
  The \<^verbatim>\<open>while True\<close> loop of \<^verbatim>\<open>scrape_jobs_api\<close>, with fuel: \<open>None\<close> means that the fuel
  ran out before the loop ended. \<open>fetch offset\<close> is what \<^verbatim>\<open>make_api_request\<close> returns for
  the page at this offset. The result is the list \<^verbatim>\<open>all_jobs\<close>, or the exception that
  left the function, and the offsets requested, one per iteration.
\<close>

fun wd_scrape_loop ::
  "nat \<Rightarrow> (nat \<Rightarrow> json option) \<Rightarrow> (json \<Rightarrow> job_record option) \<Rightarrow> nat \<Rightarrow> job_record list \<Rightarrow>
   nat list \<Rightarrow> ((py_exn + job_record list) \<times> nat list) option" where
  "wd_scrape_loop 0 fetch process offset all_jobs requested = None"
| "wd_scrape_loop (Suc fuel) fetch process offset all_jobs requested =
     (case fetch offset of
        None \<Rightarrow> Some (Inr all_jobs, requested @ [offset])
      | Some result \<Rightarrow>
          if \<not> truthy result then Some (Inr all_jobs, requested @ [offset])
          else
            (case extract_jobs_from_api_response process result of
               Inl e \<Rightarrow> Some (Inl e, requested @ [offset])
             | Inr jobs \<Rightarrow>
                 if jobs = [] then Some (Inr all_jobs, requested @ [offset])
                 else if length jobs < page_limit
                   then Some (Inr (all_jobs @ jobs), requested @ [offset])
                 else wd_scrape_loop fuel fetch process (offset + page_limit) (all_jobs @ jobs)
                        (requested @ [offset])))"

text \<open>
  \<^verbatim>\<open>scrape_jobs_api\<close> : every page is requested through \<^verbatim>\<open>make_api_request\<close>; \<open>env offset\<close>
  is the outcome of the attempts made for the page at this offset.
\<close>

definition scrape_jobs_api ::
  "nat \<Rightarrow> int \<Rightarrow> real \<Rightarrow> (nat \<Rightarrow> nat \<Rightarrow> attempt) \<Rightarrow> (json \<Rightarrow> job_record option) \<Rightarrow>
   ((py_exn + job_record list) \<times> nat list) option" where
  "scrape_jobs_api fuel max_retries delay env process =
     wd_scrape_loop fuel (\<lambda>offset. fst (make_api_request max_retries delay (env offset))) process 0 [] []"

section \<open>Pagination in \<^verbatim>\<open>enhanced_pulte_scraper.py\<close>\<close>

text \<open>
  \<^verbatim>\<open>extract_jobs_from_response\<close> : the items of a list, or of the first container key of
  a dictionary that holds a list, normalized; the records for which the normalizer
  gives nothing are dropped.
\<close>

definition extract_jobs_from_response ::
  "(json \<Rightarrow> job_record option) \<Rightarrow> json \<Rightarrow> job_record list" where
  "extract_jobs_from_response process data_v =
     (case data_v of
        JList xs \<Rightarrow> List.map_filter process xs
      | JDict d \<Rightarrow>
          (case find (holds_list d) job_containers of
             Some c \<Rightarrow> (case dict_get d c of
                          Some (JList xs) \<Rightarrow> List.map_filter process xs
                        | _ \<Rightarrow> [])
           | None \<Rightarrow> [])
      | _ \<Rightarrow> [])"

text \<open>The four shapes of query parameters tried for one page.\<close>

definition page_param_sets :: "nat \<Rightarrow> nat \<Rightarrow> (string \<times> int) list list" where
  "page_param_sets offset page =
     [[(''offset'', int offset), (''limit'', int page_limit)],
      [(''from'', int offset), (''size'', int page_limit)],
      [(''page'', int page), (''pageSize'', int page_limit)],
      [(''start'', int offset), (''count'', int page_limit)]]"

text \<open>
  The inner \<^verbatim>\<open>for params in param_sets\<close> loop. \<open>fetch params\<close> is the decoded body of the
  response to the request with these parameters, \<open>None\<close> when \<^verbatim>\<open>make_request\<close> returned
  \<^verbatim>\<open>None\<close>, the status is not 200 or the body does not decode. The first shape whose
  response gives normalized records ends the loop.
\<close>

datatype page_outcome = NoJobs | LastPage "job_record list" | FullPage "job_record list"

fun try_param_sets ::
  "((string \<times> int) list \<Rightarrow> json option) \<Rightarrow> (json \<Rightarrow> job_record option) \<Rightarrow>
   (string \<times> int) list list \<Rightarrow> page_outcome" where
  "try_param_sets fetch process [] = NoJobs"
| "try_param_sets fetch process (params # rest) =
     (case fetch params of
        None \<Rightarrow> try_param_sets fetch process rest
      | Some data_v \<Rightarrow>
          (let jobs = extract_jobs_from_response process data_v
           in if jobs = [] then try_param_sets fetch process rest
              else if length jobs < page_limit then LastPage jobs
              else FullPage jobs))"

text \<open>
  The \<^verbatim>\<open>while True\<close> loop of \<^verbatim>\<open>paginate_api_endpoint\<close>, with fuel. The result is
  \<^verbatim>\<open>all_jobs\<close> and the offsets of the iterations made.
\<close>

fun en_paginate_loop ::
  "nat \<Rightarrow> ((string \<times> int) list \<Rightarrow> json option) \<Rightarrow> (json \<Rightarrow> job_record option) \<Rightarrow> nat \<Rightarrow> nat \<Rightarrow>
   job_record list \<Rightarrow> nat list \<Rightarrow> (job_record list \<times> nat list) option" where
  "en_paginate_loop 0 fetch process offset page all_jobs visited = None"
| "en_paginate_loop (Suc fuel) fetch process offset page all_jobs visited =
     (case try_param_sets fetch process (page_param_sets offset page) of
        NoJobs \<Rightarrow> Some (all_jobs, visited @ [offset])
      | LastPage jobs \<Rightarrow> Some (all_jobs @ jobs, visited @ [offset])
      | FullPage jobs \<Rightarrow>
          en_paginate_loop fuel fetch process (offset + page_limit) (page + 1) (all_jobs @ jobs)
            (visited @ [offset]))"

definition paginate_api_endpoint ::
  "nat \<Rightarrow> ((string \<times> int) list \<Rightarrow> json option) \<Rightarrow> (json \<Rightarrow> job_record option) \<Rightarrow>
   (job_record list \<times> nat list) option" where
  "paginate_api_endpoint fuel fetch process = en_paginate_loop fuel fetch process 0 1 [] []"



section \<open>The page loop of \<^verbatim>\<open>simple_pulte_scraper.py\<close>\<close>




section \<open>Failed attempts, as the transport sees them\<close>







section \<open>Pages, as the pagination loops see them\<close>

text \<open>
  The normalized records of the Workday page at an offset: none when the request gave
  nothing or a falsy body, else what \<^verbatim>\<open>extract_jobs_from_api_response\<close> gives (or
  raises).
\<close>

definition wd_page ::
  "(nat \<Rightarrow> json option) \<Rightarrow> (json \<Rightarrow> job_record option) \<Rightarrow> nat \<Rightarrow> py_exn + job_record list" where
  "wd_page fetch process offset =
     (case fetch offset of
        None \<Rightarrow> Inr []
      | Some result \<Rightarrow>
          if truthy result then extract_jobs_from_api_response process result else Inr [])"

text \<open>
  The normalized records of a page of the enhanced scraper: those of the first of the
  four parameter shapes whose response gives any, none when no shape does.
\<close>

definition gives_jobs ::
  "((string \<times> int) list \<Rightarrow> json option) \<Rightarrow> (json \<Rightarrow> job_record option) \<Rightarrow> (string \<times> int) list \<Rightarrow> bool" where
  "gives_jobs fetch process params =
     (case fetch params of
        Some data_v \<Rightarrow> extract_jobs_from_response process data_v \<noteq> []
      | None \<Rightarrow> False)"

definition en_page ::
  "((string \<times> int) list \<Rightarrow> json option) \<Rightarrow> (json \<Rightarrow> job_record option) \<Rightarrow> nat \<Rightarrow> nat \<Rightarrow>
   job_record list" where
  "en_page fetch process offset page =
     (case find (gives_jobs fetch process) (page_param_sets offset page) of
        Some params \<Rightarrow>
          (case fetch params of
             Some data_v \<Rightarrow> extract_jobs_from_response process data_v
           | None \<Rightarrow> [])
      | None \<Rightarrow> [])"

section \<open>An upstream that holds a list of records and honours the page size\<close>

text \<open>The body of a page: the records under the key \<^verbatim>\<open>jobPostings\<close>.\<close>

definition page_body :: "json list \<Rightarrow> json" where
  "page_body items = JDict [(''jobPostings'', JList items)]"

text \<open>
  The Workday upstream: every attempt for the page at an offset is answered with the
  status 200 and the records from this offset on, at most the page size.
\<close>

definition wd_upstream :: "json list \<Rightarrow> nat \<Rightarrow> nat \<Rightarrow> attempt" where
  "wd_upstream records offset k =
     Responded \<lparr>status_code = 200,
                json_body = Some (page_body (take page_limit (drop offset records)))\<rparr>"

text \<open>
  The window that query parameters ask for, in each of the four shapes: offset and
  size, with pages counted from 1.
\<close>

definition param_window :: "(string \<times> int) list \<Rightarrow> (nat \<times> nat) option" where
  "param_window params =
     (case (map_of params ''offset'', map_of params ''limit'') of
        (Some off, Some sz) \<Rightarrow> Some (nat off, nat sz)
      | _ \<Rightarrow>
     (case (map_of params ''from'', map_of params ''size'') of
        (Some off, Some sz) \<Rightarrow> Some (nat off, nat sz)
      | _ \<Rightarrow>
     (case (map_of params ''page'', map_of params ''pageSize'') of
        (Some pg, Some sz) \<Rightarrow> Some (nat (pg - 1) * nat sz, nat sz)
      | _ \<Rightarrow>
     (case (map_of params ''start'', map_of params ''count'') of
        (Some off, Some sz) \<Rightarrow> Some (nat off, nat sz)
      | _ \<Rightarrow> None))))"

text \<open>
  The upstream of the enhanced scraper: a request in one of the four shapes is answered
  with the status 200 and the records of its window, any other request with 404.
\<close>

definition en_upstream :: "json list \<Rightarrow> (string \<times> int) list \<Rightarrow> nat \<Rightarrow> attempt" where
  "en_upstream records params k =
     (case param_window params of
        Some (off, sz) \<Rightarrow>
          Responded \<lparr>status_code = 200, json_body = Some (page_body (take sz (drop off records)))\<rparr>
      | None \<Rightarrow> Responded \<lparr>status_code = 404, json_body = None\<rparr>)"

section \<open>The stopping rule as the specification words it\<close>

text \<open>The number of raw records of a Workday page.\<close>

definition raw_count :: "json option \<Rightarrow> nat" where
  "raw_count result =
     (case result of
        Some (JDict d) \<Rightarrow> (case dict_get d ''jobPostings'' of Some (JList xs) \<Rightarrow> length xs | _ \<Rightarrow> 0)
      | _ \<Rightarrow> 0)"

text \<open>
  The specification's loop: stop when the page gives no normalized record, or fewer
  raw records than the page size; else go on with the next offset.
\<close>

fun spec_scrape_loop ::
  "nat \<Rightarrow> (nat \<Rightarrow> json option) \<Rightarrow> (json \<Rightarrow> job_record option) \<Rightarrow> nat \<Rightarrow> job_record list \<Rightarrow>
   nat list \<Rightarrow> (job_record list \<times> nat list) option" where
  "spec_scrape_loop 0 fetch process offset all_jobs requested = None"
| "spec_scrape_loop (Suc fuel) fetch process offset all_jobs requested =
     (case wd_page fetch process offset of
        Inl e \<Rightarrow> Some (all_jobs, requested @ [offset])
      | Inr jobs \<Rightarrow>
          if jobs = [] \<or> raw_count (fetch offset) < page_limit
          then Some (all_jobs @ jobs, requested @ [offset])
          else spec_scrape_loop fuel fetch process (offset + page_limit) (all_jobs @ jobs)
                 (requested @ [offset]))"

section \<open>Raw records for the pagination examples\<close>

definition titled_raw :: json where
  "titled_raw = JDict [(''title'', JStr ''Site Engineer'')]"

definition untitled_raw :: json where
  "untitled_raw = JDict [(''id'', JStr ''JR4032'')]"

definition titled_job :: job_record where
  "titled_job =
     \<lparr>job_id = JStr [], title = JStr ''Site Engineer'', location = JStr [],
      posting_date = JStr [], url = JStr [], company = JStr ''Pultegroup'',
      scraped_at = JStr sample_now\<rparr>"

definition wd_sample_process :: "json \<Rightarrow> job_record option" where
  "wd_sample_process = wd_process_job_data urljoin_plain pulte_base ''Pultegroup'' sample_now"

text \<open>Forty-five records with a title.\<close>

definition records_45 :: "json list" where
  "records_45 = replicate 45 titled_raw"

text \<open>
  Twenty-five records: nineteen with a title, one without, then five with a title.
\<close>

definition records_25 :: "json list" where
  "records_25 = replicate 19 titled_raw @ [untitled_raw] @ replicate 5 titled_raw"

definition en_sample_process :: "json \<Rightarrow> job_record option" where
  "en_sample_process = en_process_job_data urljoin_plain pulte_base sample_now"

definition en_titled_job :: job_record where
  "en_titled_job =
     \<lparr>job_id = JStr [], title = JStr ''Site Engineer'', location = JStr [],
      posting_date = JStr [], url = JStr [], company = JStr ''PulteGroup'',
      scraped_at = JStr sample_now\<rparr>"

section \<open>Facts about the Python helpers\<close>

declare digits.simps [simp del]

lemma digits_nonempty: "digits n \<noteq> []"
  by (subst digits.simps) simp

lemma str_int_nonempty: "str_int i \<noteq> []"
  by (simp add: str_int_def digits_nonempty)

lemma repr_str_nonempty: "repr_str s \<noteq> []"
  by (simp add: repr_str_def Let_def)

lemma py_str_truthy: "truthy v \<Longrightarrow> py_str v \<noteq> []"
  by (cases v) (simp_all add: py_str_def str_int_nonempty repr_str_nonempty)

lemma first_truthy_None: "first_truthy d ks = None \<longleftrightarrow> (\<forall>k\<in>set ks. \<not> get_truthy d k)"
  by (induction ks) (auto simp: get_truthy_def split: option.splits)

lemma first_truthy_Some: "first_truthy d ks = Some v \<Longrightarrow> truthy v"
  by (induction ks) (auto simp: get_truthy_def split: option.splits if_splits)

lemma explicit_id_empty: "explicit_id ks job = [] \<longleftrightarrow> (\<forall>k\<in>set ks. \<not> get_truthy job k)"
proof (cases "first_truthy job ks")
  case None
  then show ?thesis using first_truthy_None[of job ks] by (simp add: explicit_id_def)
next
  case (Some v)
  then have "py_str v \<noteq> []" by (intro py_str_truthy first_truthy_Some)
  moreover from Some have "\<not> (\<forall>k\<in>set ks. \<not> get_truthy job k)"
    using first_truthy_None[of job ks] by simp
  ultimately show ?thesis using Some by (simp add: explicit_id_def)
qed

lemma split_on_nonempty: "split_on c s \<noteq> []"
  by (induction s) (auto split: list.splits)

lemma split_on_no_sep: "c \<notin> set s \<Longrightarrow> split_on c s = [s]"
  by (induction s) auto

lemma split_on_sep_length: "c \<in> set s \<Longrightarrow> \<exists>w v vs. split_on c s = w # v # vs"
proof (induction s)
  case Nil
  then show ?case by simp
next
  case (Cons x xs)
  show ?case
  proof (cases "x = c")
    case True
    then show ?thesis using split_on_nonempty[of c xs] by (cases "split_on c xs") auto
  next
    case False
    with Cons.prems have "c \<in> set xs" by simp
    from Cons.IH[OF this] obtain w v vs where "split_on c xs = w # v # vs" by blast
    with False show ?thesis by simp
  qed
qed

lemma last_split_on_no_sep: "c \<notin> set (last (split_on c s))"
proof (induction s)
  case Nil
  then show ?case by simp
next
  case (Cons x xs)
  show ?case
  proof (cases "x = c")
    case True
    then show ?thesis using Cons.IH split_on_nonempty[of c xs] by simp
  next
    case False
    show ?thesis
    proof (cases "c \<in> set xs")
      case True
      from split_on_sep_length[OF this] obtain w v vs where "split_on c xs = w # v # vs" by blast
      with False Cons.IH show ?thesis by simp
    next
      case nin: False
      with False show ?thesis by (simp add: split_on_no_sep)
    qed
  qed
qed

lemma last_split_on_suffix: "c \<in> set s \<Longrightarrow> \<exists>pre. s = pre @ c # last (split_on c s)"
proof (induction s)
  case Nil
  then show ?case by simp
next
  case (Cons x xs)
  show ?case
  proof (cases "c \<in> set xs")
    case True
    from Cons.IH[OF this] obtain pre where pre: "xs = pre @ c # last (split_on c xs)" by blast
    from split_on_sep_length[OF True] obtain w v vs where sp: "split_on c xs = w # v # vs" by blast
    have "last (split_on c (x # xs)) = last (split_on c xs)"
      using sp by simp
    with pre have "x # xs = (x # pre) @ c # last (split_on c (x # xs))" by simp
    then show ?thesis by blast
  next
    case False
    with Cons.prems have "x = c" by simp
    with False have "x # xs = [] @ c # last (split_on c (x # xs))"
      by (simp add: split_on_no_sep)
    then show ?thesis by blast
  qed
qed

text \<open>
  What \<open>path_id\<close> computes: with an underscore in the path, the part after the last
  underscore; without one, the last segment of the path stripped of its outer slashes.
\<close>

lemma path_id_underscore:
  "CHR ''_'' \<in> set p \<Longrightarrow> CHR ''_'' \<notin> set (path_id p) \<and> (\<exists>pre. p = pre @ CHR ''_'' # path_id p)"
  by (simp add: path_id_def last_split_on_no_sep last_split_on_suffix)

lemma path_id_segment:
  "CHR ''_'' \<notin> set p \<Longrightarrow> CHR ''/'' \<notin> set (path_id p) \<and>
     (strip_by (\<lambda>c. c = CHR ''/'') p = path_id p \<or>
      (\<exists>pre. strip_by (\<lambda>c. c = CHR ''/'') p = pre @ CHR ''/'' # path_id p))"
proof -
  assume nu: "CHR ''_'' \<notin> set p"
  define q where "q = strip_by (\<lambda>c. c = CHR ''/'') p"
  have pid: "path_id p = last (split_on CHR ''/'' q)"
    using nu by (simp add: path_id_def q_def)
  have "q = last (split_on CHR ''/'' q) \<or> (\<exists>pre. q = pre @ CHR ''/'' # last (split_on CHR ''/'' q))"
  proof (cases "CHR ''/'' \<in> set q")
    case True
    then show ?thesis using last_split_on_suffix by blast
  next
    case False
    then show ?thesis by (simp add: split_on_no_sep)
  qed
  then show ?thesis
    unfolding pid q_def [symmetric] by (simp add: last_split_on_no_sep)
qed

section \<open>The record normalizers\<close>

text \<open>
  The normalizer of \<^verbatim>\<open>workday_simple_api.py\<close> rejects a record none of whose title
  fields is present, and every record it returns has a title that is not empty.
\<close>

lemma wd_title_none: "\<forall>k\<in>set wd_title_fields. \<not> has_key job k \<Longrightarrow> wd_title job = []"
  using first_truthy_None[of job wd_title_fields]
  by (auto simp: wd_title_def has_key_def get_truthy_def split: option.splits)

lemma wd_process_no_title:
  "\<forall>k\<in>set wd_title_fields. \<not> has_key job k \<Longrightarrow> wd_process_job_data uj b c n (JDict job) = None"
  by (simp add: wd_process_job_data_def wd_title_none split: option.splits)

lemma wd_process_title_nonempty:
  "wd_process_job_data uj b c n raw = Some r \<Longrightarrow> \<exists>t. title r = JStr t \<and> t \<noteq> []"
  by (auto simp: wd_process_job_data_def split: json.splits option.splits if_splits)

text \<open>
  Claim C1 (a record that lacks every title key is rejected, so every record of the
  normalizer's output has a title that is not empty) fails for the normalizer of
  \<^verbatim>\<open>enhanced_pulte_scraper.py\<close>: the record \<^verbatim>\<open>{"id": "JR4032"}\<close> has none of the keys
  \<^verbatim>\<open>title\<close>, \<^verbatim>\<open>jobTitle\<close>, \<^verbatim>\<open>positionTitle\<close>, \<^verbatim>\<open>name\<close>, \<^verbatim>\<open>jobName\<close>, and
  \<^verbatim>\<open>process_job_data\<close> returns a record for it whose title is the empty string, for
  every \<^verbatim>\<open>urljoin\<close>, base URL and clock.
\<close>

theorem en_process_job_data_untitled:
  "en_process_job_data uj b now (JDict [(''id'', JStr ''JR4032'')]) =
     Some \<lparr>job_id = JStr ''JR4032'', title = JStr [], location = JStr [], posting_date = JStr [],
           url = JStr (b @ ''/JR4032''), company = JStr ''PulteGroup'', scraped_at = JStr now\<rparr>"
  by (simp add: en_process_job_data_def explicit_id_def en_id_fields_def get_truthy_def dict_get_def
      py_str_def en_location_def build_url_def raw_field_def en_title_fields_def en_date_fields_def
      Let_def)

section \<open>The job id of the Workday normalizer\<close>

lemma first_bullet_str_at:
  "i < length fs \<Longrightarrow> fs ! i = JStr s \<Longrightarrow> strip s \<noteq> [] \<Longrightarrow>
   (\<forall>j<i. \<forall>t. fs ! j = JStr t \<longrightarrow> strip t = []) \<Longrightarrow> first_bullet_str fs = strip s"
proof (induction fs arbitrary: i)
  case Nil
  then show ?case by simp
next
  case (Cons x xs)
  show ?case
  proof (cases i)
    case 0
    with Cons.prems show ?thesis by simp
  next
    case (Suc k)
    with Cons.prems have blank: "\<forall>t. x = JStr t \<longrightarrow> strip t = []" by auto
    have k: "k < length xs" "xs ! k = JStr s" using Cons.prems Suc by simp_all
    have "\<forall>j<k. \<forall>t. xs ! j = JStr t \<longrightarrow> strip t = []"
    proof (intro allI impI)
      fix j t assume "j < k" "xs ! j = JStr t"
      then have "Suc j < i" "(x # xs) ! Suc j = JStr t" using Suc by simp_all
      with Cons.prems(4) show "strip t = []" by blast
    qed
    with Cons.IH[OF k Cons.prems(3)] have "first_bullet_str xs = strip s" by simp
    moreover have "first_bullet_str (x # xs) = first_bullet_str xs"
      using blank by (cases x) simp_all
    ultimately show ?thesis by simp
  qed
qed

lemma first_bullet_str_empty:
  "first_bullet_str fs = [] \<longleftrightarrow> (\<forall>s. JStr s \<in> set fs \<longrightarrow> strip s = [])"
  by (induction fs rule: first_bullet_str.induct) auto

lemma wd_bullet_id_empty:
  "wd_bullet_id job = [] \<longleftrightarrow>
     (\<forall>fs s. dict_get job ''bulletFields'' = Some (JList fs) \<and> JStr s \<in> set fs \<longrightarrow> strip s = [])"
proof (cases "dict_get job ''bulletFields''")
  case None
  then show ?thesis by (simp add: wd_bullet_id_def)
next
  case (Some v)
  then show ?thesis
    by (cases v) (simp_all add: wd_bullet_id_def first_bullet_str_empty)
qed

lemma last_split_on_append: "c \<notin> set t \<Longrightarrow> last (split_on c (pre @ c # t)) = t"
proof (induction pre)
  case Nil
  then show ?case by (simp add: split_on_no_sep)
next
  case (Cons x xs)
  have "c \<in> set (xs @ c # t)" by simp
  from split_on_sep_length[OF this] obtain w v vs where "split_on c (xs @ c # t) = w # v # vs"
    by blast
  with Cons show ?case by simp
qed

text \<open>The path part that \<open>path_id\<close> computes is the one the specification names.\<close>

lemma path_tail_iff: "path_tail p t \<longleftrightarrow> t = path_id p"
proof (cases "CHR ''_'' \<in> set p")
  case True
  show ?thesis
  proof
    assume "path_tail p t"
    with True obtain pre where "CHR ''_'' \<notin> set t" "p = pre @ CHR ''_'' # t"
      by (auto simp: path_tail_def suffix_def)
    then show "t = path_id p" using True by (simp add: path_id_def last_split_on_append)
  next
    assume "t = path_id p"
    then show "path_tail p t" using True path_id_underscore[OF True]
      by (auto simp: path_tail_def suffix_def)
  qed
next
  case False
  define q where "q = strip_by (\<lambda>c. c = CHR ''/'') p"
  have pid: "path_id p = last (split_on CHR ''/'' q)" using False by (simp add: path_id_def q_def)
  show ?thesis
  proof
    assume "path_tail p t"
    with False have t: "CHR ''/'' \<notin> set t" and "q = t \<or> (\<exists>pre. q = pre @ CHR ''/'' # t)"
      by (auto simp: path_tail_def suffix_def q_def)
    then show "t = path_id p"
      unfolding pid by (auto simp: split_on_no_sep last_split_on_append)
  next
    assume "t = path_id p"
    then show "path_tail p t" using False path_id_segment[OF False]
      by (auto simp: path_tail_def suffix_def)
  qed
qed

lemma first_truthy_at:
  "i < length ks \<Longrightarrow> dict_get d (ks ! i) = Some v \<Longrightarrow> truthy v \<Longrightarrow>
   (\<forall>j<i. \<forall>w. dict_get d (ks ! j) = Some w \<longrightarrow> \<not> truthy w) \<Longrightarrow> first_truthy d ks = Some v"
proof (induction ks arbitrary: i)
  case Nil
  then show ?case by simp
next
  case (Cons k ks)
  show ?case
  proof (cases i)
    case 0
    with Cons.prems show ?thesis by (simp add: get_truthy_def)
  next
    case (Suc m)
    with Cons.prems have "\<forall>w. dict_get d k = Some w \<longrightarrow> \<not> truthy w" by auto
    then have nt: "\<not> get_truthy d k" by (auto simp: get_truthy_def split: option.splits)
    have m: "m < length ks" "dict_get d (ks ! m) = Some v" using Cons.prems Suc by simp_all
    have "\<forall>j<m. \<forall>w. dict_get d (ks ! j) = Some w \<longrightarrow> \<not> truthy w"
    proof (intro allI impI)
      fix j w assume "j < m" "dict_get d (ks ! j) = Some w"
      then have "Suc j < i" "dict_get d ((k # ks) ! Suc j) = Some w" using Suc by simp_all
      with Cons.prems(4) show "\<not> truthy w" by blast
    qed
    with Cons.IH[OF m Cons.prems(3)] have "first_truthy d ks = Some v" by simp
    with nt show ?thesis by simp
  qed
qed

lemma get_truthy_iff: "get_truthy d k \<longleftrightarrow> (\<exists>v. dict_get d k = Some v \<and> truthy v)"
  by (simp add: get_truthy_def split: option.splits)

lemma wd_accepted_job_id:
  assumes "wd_process_job_data uj b c n (JDict job) = Some r"
  shows "\<exists>jid. wd_job_id job = Some jid \<and> job_id r = JStr jid"
  using assms
  by (auto simp: wd_process_job_data_def split: option.splits if_splits)

lemma wd_job_id_cases:
  assumes "wd_job_id job = Some jid"
  shows "(wd_bullet_id job \<noteq> [] \<and> jid = wd_bullet_id job) \<or>
         (wd_bullet_id job = [] \<and>
          (\<exists>pid. wd_path_id job = Some pid \<and>
             (if pid \<noteq> [] then jid = pid else jid = explicit_id wd_id_fields job)))"
  using assms by (auto simp: wd_job_id_def Let_def split: option.splits if_splits)

lemma wd_path_id_str:
  assumes "wd_path_id job = Some pid" and "dict_get job ''externalPath'' = Some (JStr p)"
  shows "pid = path_id p"
proof (cases "p = []")
  case True
  then have "path_id p = []" by (simp add: path_id_def strip_by_def)
  moreover have "pid = []" using assms True by (simp add: wd_path_id_def get_truthy_def)
  ultimately show ?thesis by simp
next
  case False
  then show ?thesis using assms by (simp add: wd_path_id_def get_truthy_def)
qed

lemma wd_path_id_no_str:
  assumes "wd_path_id job = Some pid" and "\<forall>p. dict_get job ''externalPath'' \<noteq> Some (JStr p)"
  shows "pid = []"
  using assms
  by (auto simp: wd_path_id_def split: if_splits option.splits json.splits)

text \<open>
  Claim C3, as the normalizer of \<^verbatim>\<open>workday_simple_api.py\<close> has it. Whenever the
  normalizer returns a record, its \<^verbatim>\<open>job_id\<close> is a string \<open>jid\<close>, and:

  \<^item> if \<^verbatim>\<open>bulletFields\<close> is a list and its element \<open>i\<close> is a string that is not blank, no
    earlier element being such a string, then \<open>jid\<close> is that string, trimmed;
  \<^item> if \<^verbatim>\<open>bulletFields\<close> gives nothing (it is no list, or none of its elements is a
    string that is not blank) and \<^verbatim>\<open>externalPath\<close> is a string whose part \<open>t\<close> after the
    last underscore (without underscore: whose trailing segment) is not empty, then
    \<open>jid\<close> is \<open>t\<close>;
  \<^item> if neither gives anything, and field \<open>i\<close> of \<^verbatim>\<open>id\<close>, \<^verbatim>\<open>jobId\<close>, \<^verbatim>\<open>postingId\<close>,
    \<^verbatim>\<open>requisitionId\<close>, \<^verbatim>\<open>externalJobId\<close> is truthy, no earlier one being truthy, then
    \<open>jid\<close> is \<^verbatim>\<open>str\<close> of that field;
  \<^item> \<open>jid\<close> is empty exactly when all three give nothing.

  The id is never read off the built URL.
\<close>

theorem wd_job_id_priority:
  assumes "wd_process_job_data uj b c n (JDict job) = Some r"
  shows "\<exists>jid. job_id r = JStr jid \<and>
    (\<forall>fs i s. dict_get job ''bulletFields'' = Some (JList fs) \<and> i < length fs \<and>
        fs ! i = JStr s \<and> strip s \<noteq> [] \<and> (\<forall>j<i. \<forall>t. fs ! j = JStr t \<longrightarrow> strip t = [])
        \<longrightarrow> jid = strip s) \<and>
    ((\<forall>fs s. dict_get job ''bulletFields'' = Some (JList fs) \<and> JStr s \<in> set fs \<longrightarrow> strip s = []) \<longrightarrow>
       (\<forall>p t. dict_get job ''externalPath'' = Some (JStr p) \<and> path_tail p t \<and> t \<noteq> [] \<longrightarrow> jid = t) \<and>
       ((\<forall>p t. dict_get job ''externalPath'' = Some (JStr p) \<and> path_tail p t \<longrightarrow> t = []) \<longrightarrow>
          (\<forall>i v. i < length wd_id_fields \<and> dict_get job (wd_id_fields ! i) = Some v \<and> truthy v \<and>
              (\<forall>j<i. \<forall>w. dict_get job (wd_id_fields ! j) = Some w \<longrightarrow> \<not> truthy w)
              \<longrightarrow> jid = py_str v))) \<and>
    (jid = [] \<longleftrightarrow>
       (\<forall>fs s. dict_get job ''bulletFields'' = Some (JList fs) \<and> JStr s \<in> set fs \<longrightarrow> strip s = []) \<and>
       (\<forall>p t. dict_get job ''externalPath'' = Some (JStr p) \<and> path_tail p t \<longrightarrow> t = []) \<and>
       (\<forall>k\<in>set wd_id_fields. \<forall>v. dict_get job k = Some v \<longrightarrow> \<not> truthy v))"
proof -
  let ?nb = "\<forall>fs s. dict_get job ''bulletFields'' = Some (JList fs) \<and> JStr s \<in> set fs \<longrightarrow> strip s = []"
  let ?np = "\<forall>p t. dict_get job ''externalPath'' = Some (JStr p) \<and> path_tail p t \<longrightarrow> t = []"
  let ?ne = "\<forall>k\<in>set wd_id_fields. \<forall>v. dict_get job k = Some v \<longrightarrow> \<not> truthy v"
  from wd_accepted_job_id[OF assms] obtain jid where
    w: "wd_job_id job = Some jid" and jr: "job_id r = JStr jid" by blast
  have nb: "wd_bullet_id job = [] \<longleftrightarrow> ?nb" by (rule wd_bullet_id_empty)
  have ne: "explicit_id wd_id_fields job = [] \<longleftrightarrow> ?ne"
    unfolding explicit_id_empty get_truthy_iff by blast
  have m1: "jid = strip s"
    if "dict_get job ''bulletFields'' = Some (JList fs)" "i < length fs" "fs ! i = JStr s"
       "strip s \<noteq> []" "\<forall>j<i. \<forall>t. fs ! j = JStr t \<longrightarrow> strip t = []" for fs i s
  proof -
    have "wd_bullet_id job = strip s"
      using that first_bullet_str_at[of i fs s] by (simp add: wd_bullet_id_def)
    with that(4) w show ?thesis by (simp add: wd_job_id_def Let_def)
  qed
  have rest: "\<exists>pid. wd_path_id job = Some pid \<and>
                (if pid \<noteq> [] then jid = pid else jid = explicit_id wd_id_fields job)" if "?nb"
    using wd_job_id_cases[OF w] that nb by blast
  have pid_np: "pid = [] \<longleftrightarrow> ?np" if "wd_path_id job = Some pid" for pid
  proof (cases "\<exists>p. dict_get job ''externalPath'' = Some (JStr p)")
    case True
    then obtain p where p: "dict_get job ''externalPath'' = Some (JStr p)" by blast
    with wd_path_id_str[OF that p] show ?thesis by (simp add: path_tail_iff)
  next
    case False
    with wd_path_id_no_str[OF that] show ?thesis by simp
  qed
  have m2: "jid = t"
    if "?nb" "dict_get job ''externalPath'' = Some (JStr p)" "path_tail p t" "t \<noteq> []" for p t
  proof -
    from rest[OF that(1)] obtain pid where pid: "wd_path_id job = Some pid"
      and j: "if pid \<noteq> [] then jid = pid else jid = explicit_id wd_id_fields job" by blast
    have "pid = path_id p" by (rule wd_path_id_str[OF pid that(2)])
    with that(3,4) j show ?thesis by (simp add: path_tail_iff)
  qed
  have m3: "jid = py_str v"
    if "?nb" "?np" "i < length wd_id_fields" "dict_get job (wd_id_fields ! i) = Some v" "truthy v"
       "\<forall>j<i. \<forall>w. dict_get job (wd_id_fields ! j) = Some w \<longrightarrow> \<not> truthy w" for i v
  proof -
    from rest[OF that(1)] obtain pid where pid: "wd_path_id job = Some pid"
      and j: "if pid \<noteq> [] then jid = pid else jid = explicit_id wd_id_fields job" by blast
    have "pid = []" using pid_np[OF pid] that(2) by blast
    with j have "jid = explicit_id wd_id_fields job" by simp
    moreover have "first_truthy job wd_id_fields = Some v"
      using that(3-6) by (intro first_truthy_at) auto
    ultimately show ?thesis by (simp add: explicit_id_def)
  qed
  have e: "jid = [] \<longleftrightarrow> ?nb \<and> ?np \<and> ?ne"
  proof (cases "wd_bullet_id job = []")
    case False
    with w have "jid \<noteq> []" by (auto simp: wd_job_id_def Let_def)
    moreover have "\<not> ?nb" using False nb by simp
    ultimately show ?thesis by simp
  next
    case True
    then have b: "?nb" using nb by simp
    from rest[OF b] obtain pid where pid: "wd_path_id job = Some pid"
      and j: "if pid \<noteq> [] then jid = pid else jid = explicit_id wd_id_fields job" by blast
    show ?thesis
    proof (cases "pid = []")
      case True
      then have np: "?np" using pid_np[OF pid] by simp
      from True j have "jid = explicit_id wd_id_fields job" by simp
      then have je: "jid = [] \<longleftrightarrow> ?ne" using ne by simp
      show ?thesis
      proof
        assume "jid = []"
        then have "?ne" by (rule je[THEN iffD1])
        with b np show "?nb \<and> ?np \<and> ?ne" by (intro conjI)
      next
        assume "?nb \<and> ?np \<and> ?ne"
        then have "?ne" by (elim conjE)
        then show "jid = []" by (rule je[THEN iffD2])
      qed
    next
      case False
      with j have "jid \<noteq> []" by simp
      moreover have "\<not> ?np" using pid_np[OF pid] False by simp
      ultimately show ?thesis by simp
    qed
  qed
  show ?thesis
  proof (intro exI[of _ jid] conjI)
    show "job_id r = JStr jid" by (rule jr)
    show "\<forall>fs i s. dict_get job ''bulletFields'' = Some (JList fs) \<and> i < length fs \<and>
        fs ! i = JStr s \<and> strip s \<noteq> [] \<and> (\<forall>j<i. \<forall>t. fs ! j = JStr t \<longrightarrow> strip t = [])
        \<longrightarrow> jid = strip s" using m1 by blast
    show "?nb \<longrightarrow>
       (\<forall>p t. dict_get job ''externalPath'' = Some (JStr p) \<and> path_tail p t \<and> t \<noteq> [] \<longrightarrow> jid = t) \<and>
       (?np \<longrightarrow>
          (\<forall>i v. i < length wd_id_fields \<and> dict_get job (wd_id_fields ! i) = Some v \<and> truthy v \<and>
              (\<forall>j<i. \<forall>w. dict_get job (wd_id_fields ! j) = Some w \<longrightarrow> \<not> truthy w)
              \<longrightarrow> jid = py_str v))"
    proof (intro impI conjI allI)
      fix p t assume "?nb" "dict_get job ''externalPath'' = Some (JStr p) \<and> path_tail p t \<and> t \<noteq> []"
      then show "jid = t" using m2 by blast
    next
      fix i v assume "?nb" "?np"
        "i < length wd_id_fields \<and> dict_get job (wd_id_fields ! i) = Some v \<and> truthy v \<and>
              (\<forall>j<i. \<forall>w. dict_get job (wd_id_fields ! j) = Some w \<longrightarrow> \<not> truthy w)"
      then show "jid = py_str v" using m3[of i v] by blast
    qed
    show "jid = [] \<longleftrightarrow> ?nb \<and> ?np \<and> ?ne" by (rule e)
  qed
qed

text \<open>
  The normalizer at concrete records: bullet fields beat the path and the explicit
  identifier; a path without underscore gives its trailing segment; among the explicit
  fields the first truthy one in the order of the code's list wins, whatever the order
  of the keys in the record.
\<close>

lemma wd_job_with_bullets:
  "wd_process_job_data urljoin_plain pulte_base ''Pultegroup'' ''2024-05-01T09:00:00''
     (JDict job_with_bullets) =
   Some \<lparr>job_id = JStr ''JR4032'', title = JStr ''Site Engineer'', location = JStr [],
         posting_date = JStr [],
         url = JStr ''https://pultegroup.wd1.myworkdayjobs.com/job/Dallas-TX/Site-Engineer_JR77'',
         company = JStr ''Pultegroup'', scraped_at = JStr ''2024-05-01T09:00:00''\<rparr>"
  by code_simp

lemma wd_job_with_segment:
  "wd_process_job_data urljoin_plain pulte_base ''Pultegroup'' ''2024-05-01T09:00:00''
     (JDict job_with_segment) =
   Some \<lparr>job_id = JStr ''JR4032'', title = JStr ''Site Engineer'', location = JStr [],
         posting_date = JStr [],
         url = JStr ''https://pultegroup.wd1.myworkdayjobs.com/job/Dallas-TX/JR4032/'',
         company = JStr ''Pultegroup'', scraped_at = JStr ''2024-05-01T09:00:00''\<rparr>"
  by code_simp

lemma wd_job_with_ids:
  "wd_process_job_data urljoin_plain pulte_base ''Pultegroup'' ''2024-05-01T09:00:00''
     (JDict job_with_ids) =
   Some \<lparr>job_id = JStr ''4032'', title = JStr ''Site Engineer'', location = JStr [],
         posting_date = JStr [],
         url = JStr ''https://pultegroup.wd1.myworkdayjobs.com/PGI/job/4032'',
         company = JStr ''Pultegroup'', scraped_at = JStr ''2024-05-01T09:00:00''\<rparr>"
  by code_simp

lemma wd_job_with_id_and_path:
  "wd_process_job_data urljoin_plain pulte_base ''Pultegroup'' ''2024-05-01T09:00:00''
     (JDict job_with_id_and_path) =
   Some \<lparr>job_id = JStr ''JR4032'', title = JStr ''Site Engineer'', location = JStr [],
         posting_date = JStr [],
         url = JStr ''https://pultegroup.wd1.myworkdayjobs.com/job/Dallas-TX/Site-Engineer_JR4032'',
         company = JStr ''Pultegroup'', scraped_at = JStr ''2024-05-01T09:00:00''\<rparr>"
  by code_simp

theorem wd_job_id_priority_witness:
  "wd_process_job_data urljoin_plain pulte_base ''Pultegroup'' ''2024-05-01T09:00:00''
     (JDict job_with_bullets) =
   Some \<lparr>job_id = JStr ''JR4032'', title = JStr ''Site Engineer'', location = JStr [],
         posting_date = JStr [],
         url = JStr ''https://pultegroup.wd1.myworkdayjobs.com/job/Dallas-TX/Site-Engineer_JR77'',
         company = JStr ''Pultegroup'', scraped_at = JStr ''2024-05-01T09:00:00''\<rparr> \<and>
   dict_get job_with_bullets ''bulletFields'' =
     Some (JList [JInt 7, JStr ''  '', JStr '' JR4032 '', JStr ''R-9'']) \<and>
   strip ''  '' = [] \<and> strip '' JR4032 '' = ''JR4032''"
proof -
  let ?fs = "[JInt 7, JStr ''  '', JStr '' JR4032 '', JStr ''R-9'']"
  note a = wd_job_with_bullets
  have d: "dict_get job_with_bullets ''bulletFields'' = Some (JList ?fs)" by code_simp
  have s0: "strip ''  '' = []" by code_simp
  have s2: "strip '' JR4032 '' = ''JR4032''" by code_simp
  have before: "\<forall>j<2. \<forall>t. ?fs ! j = JStr t \<longrightarrow> strip t = []"
    using s0 by (simp add: less_Suc_eq numeral_2_eq_2)
  from wd_job_id_priority[OF a] obtain jid where
    m1: "\<forall>fs i s. dict_get job_with_bullets ''bulletFields'' = Some (JList fs) \<and> i < length fs \<and>
        fs ! i = JStr s \<and> strip s \<noteq> [] \<and> (\<forall>j<i. \<forall>t. fs ! j = JStr t \<longrightarrow> strip t = [])
        \<longrightarrow> jid = strip s" by auto
  have "jid = strip '' JR4032 ''"
    using m1[rule_format, of ?fs 2 "'' JR4032 ''"] d s2 before by simp
  with a d s0 s2 show ?thesis by simp
qed

text \<open>
  Claim C3 as the specification states it fails: the specification tries the explicit
  identifier fields first. On a record with the explicit identifier \<^verbatim>\<open>REQ-1\<close> and a path
  ending in \<^verbatim>\<open>_JR4032\<close> the specification's order gives \<^verbatim>\<open>REQ-1\<close>, the normalizer gives
  \<^verbatim>\<open>JR4032\<close>.
\<close>

theorem wd_job_id_priority_counterexample:
  "map_option job_id
     (wd_process_job_data urljoin_plain pulte_base ''Pultegroup'' ''2024-05-01T09:00:00''
        (JDict job_with_id_and_path)) = Some (JStr ''JR4032'') \<and>
   spec_job_id job_with_id_and_path
     (JStr ''https://pultegroup.wd1.myworkdayjobs.com/job/Dallas-TX/Site-Engineer_JR4032'') =
     ''REQ-1''"
proof -
  have "spec_job_id job_with_id_and_path
     (JStr ''https://pultegroup.wd1.myworkdayjobs.com/job/Dallas-TX/Site-Engineer_JR4032'') =
     ''REQ-1''" by code_simp
  then show ?thesis by (simp add: wd_job_with_id_and_path)
qed

text \<open>
  The normalizer of \<^verbatim>\<open>enhanced_pulte_scraper.py\<close> reads the four fields \<^verbatim>\<open>id\<close>, \<^verbatim>\<open>jobId\<close>,
  \<^verbatim>\<open>postingId\<close>, \<^verbatim>\<open>requisitionId\<close> and nothing else: on the record with a title and a
  path only it leaves \<^verbatim>\<open>job_id\<close> empty, where the Workday normalizer (Method 2) and
  \<^verbatim>\<open>extract_job_data_selenium\<close> of the same file (the tail of the URL) find \<^verbatim>\<open>JR4032\<close>.
\<close>

lemma en_job_with_path:
  "en_process_job_data urljoin_plain pulte_base ''2024-05-01T09:00:00'' (JDict job_with_path) =
   Some \<lparr>job_id = JStr [], title = JStr ''Site Engineer'', location = JStr [],
         posting_date = JStr [],
         url = JStr ''https://pultegroup.wd1.myworkdayjobs.com/job/Dallas-TX/Site-Engineer_JR4032'',
         company = JStr ''PulteGroup'', scraped_at = JStr ''2024-05-01T09:00:00''\<rparr>"
  by code_simp


section \<open>What counts as job data\<close>

lemma holds_list_iff: "holds_list d c \<longleftrightarrow> (\<exists>xs. dict_get d c = Some (JList xs))"
proof (cases "dict_get d c")
  case None
  then show ?thesis by (simp add: holds_list_def)
next
  case (Some v)
  then show ?thesis by (cases v) (simp_all add: holds_list_def is_list_def)
qed

text \<open>
  Claim C4, as the code has it. \<^verbatim>\<open>is_job_data\<close> answers true exactly when the value is a
  list whose first element is a dictionary with one of the keys \<^verbatim>\<open>title\<close>, \<^verbatim>\<open>location\<close>,
  \<^verbatim>\<open>id\<close>, \<^verbatim>\<open>jobTitle\<close>, \<^verbatim>\<open>position\<close>; or a dictionary in which one of the keys
  \<^verbatim>\<open>jobPostings\<close>, \<^verbatim>\<open>jobs\<close>, \<^verbatim>\<open>data\<close>, \<^verbatim>\<open>results\<close>, \<^verbatim>\<open>items\<close> holds a list (any list,
  also an empty one or one of other things); or a dictionary that itself has one of the
  job keys. The payload \<^verbatim>\<open>{"status": "ok"}\<close> is not job data.
\<close>

theorem is_job_data_iff:
  "(is_job_data v \<longleftrightarrow>
     job_list v \<or>
     (\<exists>d. v = JDict d \<and>
        ((\<exists>c\<in>set job_containers. \<exists>xs. dict_get d c = Some (JList xs)) \<or>
         (\<exists>f\<in>set job_fields. has_key d f))))
   \<and> \<not> is_job_data (JDict [(''status'', JStr ''ok'')])"
proof
  show "is_job_data v \<longleftrightarrow>
     job_list v \<or>
     (\<exists>d. v = JDict d \<and>
        ((\<exists>c\<in>set job_containers. \<exists>xs. dict_get d c = Some (JList xs)) \<or>
         (\<exists>f\<in>set job_fields. has_key d f)))"
  proof (cases v)
    case (JList xs)
    show ?thesis
    proof (cases xs)
      case Nil
      with JList show ?thesis by (simp add: is_job_data_def job_list_def)
    next
      case (Cons x rest)
      with JList show ?thesis by (cases x) (simp_all add: is_job_data_def job_list_def)
    qed
  next
    case (JDict d)
    then show ?thesis
      by (simp add: is_job_data_def job_list_def list_ex_iff holds_list_iff)
  qed (simp_all add: is_job_data_def job_list_def)
  show "\<not> is_job_data (JDict [(''status'', JStr ''ok'')])" by code_simp
qed

text \<open>
  The specification asks the list under a container key to be ``such a list'', one
  whose first element is a job object. The code only asks for a list: a dictionary
  whose \<^verbatim>\<open>jobPostings\<close> is the empty list is classified as job data.
\<close>

theorem is_job_data_counterexample:
  "is_job_data (JDict [(''jobPostings'', JList [])]) \<and>
   \<not> spec_is_job_data (JDict [(''jobPostings'', JList [])])"
  by code_simp

section \<open>Values written to the CSV file\<close>

lemma strip_by_ends:
  assumes "strip_by p s \<noteq> []"
  shows "\<not> p (hd (strip_by p s)) \<and> \<not> p (last (strip_by p s))"
proof -
  define a where "a = dropWhile p s"
  define b where "b = dropWhile p (rev a)"
  have sb: "strip_by p s = rev b" by (simp add: strip_by_def a_def b_def)
  have b: "b \<noteq> []" using assms sb by simp
  then have a: "a \<noteq> []" by (auto simp: b_def)
  have hb: "\<not> p (hd b)" using b unfolding b_def by (rule hd_dropWhile)
  have ha: "\<not> p (hd a)" using a unfolding a_def by (rule hd_dropWhile)
  have "rev a = takeWhile p (rev a) @ b" by (simp add: b_def)
  then have "last (rev a) = last b" using b by (metis last_appendR)
  then have lb: "last b = hd a" using a by (simp add: last_rev)
  have "hd (rev b) = last b" using b by (simp add: hd_rev)
  moreover have "last (rev b) = hd b" using b by (simp add: last_rev)
  ultimately show ?thesis using ha hb lb sb by simp
qed

lemma strip_by_fixed:
  assumes "s = [] \<or> (\<not> p (hd s) \<and> \<not> p (last s))"
  shows "strip_by p s = s"
proof (cases s)
  case Nil
  then show ?thesis by (simp add: strip_by_def)
next
  case (Cons x xs)
  with assms have h: "\<not> p x" and l: "\<not> p (last s)" by auto
  have 1: "dropWhile p s = s" using h Cons by simp
  obtain y ys where r: "rev s = y # ys" using Cons by (cases "rev s") auto
  then have "y = hd (rev s)" by simp
  also have "\<dots> = last s" using Cons by (simp add: hd_rev)
  finally have "\<not> p y" using l by simp
  then have "dropWhile p (rev s) = rev s" using r by simp
  with 1 show ?thesis by (simp add: strip_by_def)
qed

lemma hd_filter_keep: "xs \<noteq> [] \<Longrightarrow> P (hd xs) \<Longrightarrow> hd (filter P xs) = hd xs"
  by (cases xs) auto

lemma last_filter_keep: "xs \<noteq> [] \<Longrightarrow> P (last xs) \<Longrightarrow> last (filter P xs) = last xs"
  by (induction xs rule: rev_induct) auto

lemma clean_str_no_newline: "CHR 0x0A \<notin> set (clean_str s) \<and> CHR 0x0D \<notin> set (clean_str s)"
  by (auto simp: clean_str_def remove_cr_def replace_lf_def)

lemma py_space_lf_cr: "py_space (CHR 0x0A)" "py_space (CHR 0x0D)" "py_space (CHR '' '')"
  by (simp_all add: py_space_def)

lemma clean_str_trimmed: "strip (clean_str s) = clean_str s"
proof (cases "strip s = []")
  case True
  then have "clean_str s = []" by (simp add: clean_str_def remove_cr_def replace_lf_def)
  then show ?thesis by (simp add: strip_def strip_by_def)
next
  case False
  define t where "t = strip s"
  define f where "f = (\<lambda>c. if c = CHR 0x0A then CHR '' '' else c)"
  have t: "t \<noteq> []" using False by (simp add: t_def)
  then have "strip_by py_space s \<noteq> []" by (simp add: t_def strip_def)
  from strip_by_ends[OF this] have e: "\<not> py_space (hd t)" "\<not> py_space (last t)"
    by (simp_all add: strip_def t_def)
  have hne: "hd t \<noteq> CHR 0x0A" "hd t \<noteq> CHR 0x0D" "last t \<noteq> CHR 0x0A" "last t \<noteq> CHR 0x0D"
    using e py_space_lf_cr by auto
  define u where "u = map f t"
  have u: "u \<noteq> []" using t by (simp add: u_def)
  have hu: "hd u = hd t" using t hne by (simp add: u_def hd_map f_def)
  have lu: "last u = last t" using t hne by (simp add: u_def last_map f_def)
  define w where "w = filter (\<lambda>c. c \<noteq> CHR 0x0D) u"
  have hw: "hd w = hd t" unfolding w_def using hd_filter_keep[of u "\<lambda>c. c \<noteq> CHR 0x0D"] u hu hne by simp
  have lw: "last w = last t" unfolding w_def using last_filter_keep[of u "\<lambda>c. c \<noteq> CHR 0x0D"] u lu hne by simp
  have cw: "clean_str s = w" by (simp add: clean_str_def remove_cr_def replace_lf_def w_def u_def t_def f_def)
  have "strip_by py_space w = w" using hw lw e by (intro strip_by_fixed) simp
  then show ?thesis using cw by (simp add: strip_def)
qed

lemma clean_chars_list:
  "filter (\<lambda>c. c \<noteq> CHR 0x0D) (map (\<lambda>c. if c = CHR 0x0A then CHR '' '' else c) t) =
   concat (map (\<lambda>c. if c = CHR 0x0A then '' '' else if c = CHR 0x0D then [] else [c]) t)"
  by (induction t) auto

lemma clean_str_chars:
  "clean_str s = concat (map (\<lambda>c. if c = CHR 0x0A then '' '' else if c = CHR 0x0D then [] else [c]) (strip s))"
  unfolding clean_str_def remove_cr_def replace_lf_def by (rule clean_chars_list)

lemma clean_value_str: "clean_value v = JStr s \<Longrightarrow> \<exists>s0. v = JStr s0 \<and> s = clean_str s0"
  by (cases v) (auto simp: clean_value_def)

text \<open>
  Claim C8, as the code has it. When \<^verbatim>\<open>save_to_csv\<close> writes rows, there is one row per
  job, in order; a string field is written trimmed, each of its line feeds replaced by
  one space and each of its carriage returns removed, any other value is written
  unchanged; so no string of a written row holds a line feed or a carriage return, and
  every such string is trimmed.
\<close>

theorem save_to_csv_clean:
  assumes "save_to_csv jobs = Some rows"
  shows "rows = map csv_row jobs \<and>
         (\<forall>job\<in>set jobs. \<forall>k<7.
            csv_row job ! k =
              (case field_values job ! k of
                 JStr s \<Rightarrow>
                   JStr (concat (map (\<lambda>c. if c = CHR 0x0A then '' ''
                                            else if c = CHR 0x0D then [] else [c]) (strip s)))
               | v \<Rightarrow> v)) \<and>
         (\<forall>row\<in>set rows. \<forall>s. JStr s \<in> set row \<longrightarrow>
            CHR 0x0A \<notin> set s \<and> CHR 0x0D \<notin> set s \<and> strip s = s)"
proof (intro conjI ballI allI impI)
  show rows: "rows = map csv_row jobs"
    using assms by (simp add: save_to_csv_def split: if_splits)
  fix row s assume "row \<in> set rows" and s: "JStr s \<in> set row"
  then obtain job where "row = map clean_value (field_values job)"
    using rows by (auto simp: csv_row_def)
  with s obtain v where "clean_value v = JStr s" by auto
  then obtain s0 where s0: "s = clean_str s0" using clean_value_str by blast
  show "CHR 0x0A \<notin> set s" using s0 clean_str_no_newline by simp
  show "CHR 0x0D \<notin> set s" using s0 clean_str_no_newline by simp
  show "strip s = s" using s0 clean_str_trimmed by simp
next
  fix job k assume "job \<in> set jobs" and k: "k < (7::nat)"
  have len: "length (field_values job) = 7" by (simp add: field_values_def)
  then have "csv_row job ! k = clean_value (field_values job ! k)"
    using k by (simp add: csv_row_def)
  also have "\<dots> = (case field_values job ! k of
                 JStr s \<Rightarrow>
                   JStr (concat (map (\<lambda>c. if c = CHR 0x0A then '' ''
                                            else if c = CHR 0x0D then [] else [c]) (strip s)))
               | v \<Rightarrow> v)"
    by (cases "field_values job ! k") (simp_all add: clean_value_def clean_str_chars)
  finally show "csv_row job ! k =
              (case field_values job ! k of
                 JStr s \<Rightarrow>
                   JStr (concat (map (\<lambda>c. if c = CHR 0x0A then '' ''
                                            else if c = CHR 0x0D then [] else [c]) (strip s)))
               | v \<Rightarrow> v)" .
qed

lemma untidy_rows:
  "save_to_csv [untidy_job] =
     Some [[JStr ''JR4032'', JStr ''Site Eng'', JStr ''Dallas, TX'', JNull,
            JStr ''https://pultegroup.wd1.myworkdayjobs.com/PGI/job/JR4032'',
            JStr ''PulteGroup'', JStr ''2024-05-01T09:00:00'']]"
  by code_simp

theorem save_to_csv_clean_witness:
  "save_to_csv [untidy_job] =
     Some [[JStr ''JR4032'', JStr ''Site Eng'', JStr ''Dallas, TX'', JNull,
            JStr ''https://pultegroup.wd1.myworkdayjobs.com/PGI/job/JR4032'',
            JStr ''PulteGroup'', JStr ''2024-05-01T09:00:00'']] \<and>
   csv_row untidy_job ! 1 = JStr ''Site Eng'' \<and>
   CHR 0x0A \<notin> set ''Site Eng'' \<and> CHR 0x0D \<notin> set ''Site Eng'' \<and>
   strip ''Site Eng'' = ''Site Eng''"
proof -
  note r = untidy_rows
  have c: "csv_row untidy_job ! 1 = JStr ''Site Eng''" by code_simp
  from save_to_csv_clean[OF r] have
    "\<forall>row\<in>set [[JStr ''JR4032'', JStr ''Site Eng'', JStr ''Dallas, TX'', JNull,
            JStr ''https://pultegroup.wd1.myworkdayjobs.com/PGI/job/JR4032'',
            JStr ''PulteGroup'', JStr ''2024-05-01T09:00:00'']]. \<forall>s. JStr s \<in> set row \<longrightarrow>
            CHR 0x0A \<notin> set s \<and> CHR 0x0D \<notin> set s \<and> strip s = s" by blast
  then have "CHR 0x0A \<notin> set ''Site Eng'' \<and> CHR 0x0D \<notin> set ''Site Eng'' \<and>
   strip ''Site Eng'' = ''Site Eng''" by simp
  with r c show ?thesis by simp
qed

text \<open>
  The specification has the carriage return replaced by a space as well. The code
  deletes it: \<^verbatim>\<open>a\<close>, carriage return, \<^verbatim>\<open>b\<close> is written as \<^verbatim>\<open>ab\<close>, where the
  specification's wording gives \<^verbatim>\<open>a b\<close>.
\<close>

theorem save_to_csv_counterexample:
  "clean_value (JStr [CHR ''a'', CHR 0x0D, CHR ''b'']) = JStr ''ab'' \<and>
   spec_clean_str [CHR ''a'', CHR 0x0D, CHR ''b''] = ''a b''"
  by code_simp

section \<open>The markup strategy\<close>

lemma first_selected_at:
  "i < length sels \<Longrightarrow> select_one D e (sels ! i) = Some c \<Longrightarrow> get_text D c \<noteq> [] \<Longrightarrow>
   (\<forall>j<i. \<forall>c'. select_one D e (sels ! j) = Some c' \<longrightarrow> get_text D c' = []) \<Longrightarrow>
   first_selected D e sels = get_text D c"
proof (induction sels arbitrary: i)
  case Nil
  then show ?case by simp
next
  case (Cons s ss)
  show ?case
  proof (cases i)
    case 0
    with Cons.prems show ?thesis by simp
  next
    case (Suc m)
    with Cons.prems have skip: "\<forall>c'. select_one D e s = Some c' \<longrightarrow> get_text D c' = []" by auto
    have m: "m < length ss" "select_one D e (ss ! m) = Some c" using Cons.prems Suc by simp_all
    have "\<forall>j<m. \<forall>c'. select_one D e (ss ! j) = Some c' \<longrightarrow> get_text D c' = []"
    proof (intro allI impI)
      fix j c' assume "j < m" "select_one D e (ss ! j) = Some c'"
      then have "Suc j < i" "select_one D e ((s # ss) ! Suc j) = Some c'" using Suc by simp_all
      with Cons.prems(4) show "get_text D c' = []" by blast
    qed
    with Cons.IH[OF m Cons.prems(3)] have "first_selected D e ss = get_text D c" by simp
    with skip show ?thesis by (simp split: option.splits)
  qed
qed

lemma first_selected_none:
  "(\<forall>sel\<in>set sels. \<forall>c. select_one D e sel = Some c \<longrightarrow> get_text D c = []) \<Longrightarrow>
   first_selected D e sels = []"
  by (induction sels) (auto split: option.splits)

lemma extract_title:
  assumes "extract_job_from_element D uj b n e = Some r"
  shows "title r = JStr (take 200 (title_text D e)) \<and> 3 < length (strip (take 200 (title_text D e)))"
  using assms
  by (auto simp: extract_job_from_element_def Let_def split: option.splits if_splits)

lemma extract_short:
  assumes "length (strip (take 200 (title_text D e))) \<le> 3"
  shows "extract_job_from_element D uj b n e = None"
  using assms
  by (auto simp: extract_job_from_element_def Let_def split: option.splits if_splits)

lemma strip_nonempty: "strip t \<noteq> [] \<Longrightarrow> t \<noteq> []"
  by (auto simp: strip_def strip_by_def)

lemma title_text_anchor:
  "name_of D e = ''a'' \<Longrightarrow> get_text D e \<noteq> [] \<Longrightarrow> title_text D e = get_text D e"
  by (simp add: title_text_def Let_def)

lemma title_text_selected:
  assumes "\<not> (name_of D e = ''a'' \<and> get_text D e \<noteq> [])" "i < length title_selectors"
    "select_one D e (title_selectors ! i) = Some c" "get_text D c \<noteq> []"
    "\<forall>j<i. \<forall>c'. select_one D e (title_selectors ! j) = Some c' \<longrightarrow> get_text D c' = []"
  shows "title_text D e = get_text D c"
proof -
  have "first_selected D e title_selectors = get_text D c"
    using assms(2-5) by (rule first_selected_at)
  with assms(1,4) show ?thesis by (auto simp: title_text_def Let_def)
qed

lemma title_text_own:
  assumes "\<not> (name_of D e = ''a'' \<and> get_text D e \<noteq> [])"
    "\<forall>sel\<in>set title_selectors. \<forall>c'. select_one D e sel = Some c' \<longrightarrow> get_text D c' = []"
    "title_text D e \<noteq> []"
  shows "title_text D e = get_text D e \<and> length (get_text D e) < 200 \<and>
         (\<exists>w\<in>set title_words. contains w (lower (get_text D e)))"
proof -
  have "first_selected D e title_selectors = []" using assms(2) by (rule first_selected_none)
  with assms(1,3) show ?thesis
    by (auto simp: title_text_def Let_def list_ex_iff split: if_splits)
qed

text \<open>
  Claim C10. \<^verbatim>\<open>extract_job_from_element\<close> returns a record only with a title of at most
  200 characters that, once trimmed, is longer than 3 characters. The title is the
  extracted text cut to 200 characters, where the extracted text is

  \<^item> the text of the element, when the element is an anchor with a text;
  \<^item> else the text of the first element selected by \<^verbatim>\<open>h1\<close>, \<^verbatim>\<open>h2\<close>, \<^verbatim>\<open>h3\<close>, \<^verbatim>\<open>h4\<close>,
    \<^verbatim>\<open>.title\<close>, \<^verbatim>\<open>.job-title\<close>, \<^verbatim>\<open>[data-automation-id*="title"]\<close> (in this order) whose
    text is not empty;
  \<^item> else the element's own text, which is then shorter than 200 characters and holds
    one of the title words.

  In the first two cases an extracted title of at most 3 characters after trimming
  (so every title of 1 to 3 characters) makes the function return \<^verbatim>\<open>None\<close>. An anchor
  with a longer title and an \<^verbatim>\<open>href\<close> starting with \<^verbatim>\<open>http\<close> does give a record.
\<close>

theorem extract_job_title_gate:
  "(extract_job_from_element D uj b n e = Some r \<longrightarrow>
      (\<exists>t. title r = JStr t \<and> 3 < length (strip t) \<and> length t \<le> 200)) \<and>
   (name_of D e = ''a'' \<and> get_text D e \<noteq> [] \<longrightarrow>
      (extract_job_from_element D uj b n e = Some r \<longrightarrow> title r = JStr (take 200 (get_text D e))) \<and>
      (length (strip (take 200 (get_text D e))) \<le> 3 \<longrightarrow>
         extract_job_from_element D uj b n e = None) \<and>
      (3 < length (strip (take 200 (get_text D e))) \<and> get_attr D e ''href'' = Some h \<and>
       startswith h ''http'' \<longrightarrow>
         (\<exists>r'. extract_job_from_element D uj b n e = Some r' \<and> url r' = JStr h))) \<and>
   (\<not> (name_of D e = ''a'' \<and> get_text D e \<noteq> []) \<and> i < length title_selectors \<and>
    select_one D e (title_selectors ! i) = Some c \<and> get_text D c \<noteq> [] \<and>
    (\<forall>j<i. \<forall>c'. select_one D e (title_selectors ! j) = Some c' \<longrightarrow> get_text D c' = []) \<longrightarrow>
      (extract_job_from_element D uj b n e = Some r \<longrightarrow> title r = JStr (take 200 (get_text D c))) \<and>
      (length (strip (take 200 (get_text D c))) \<le> 3 \<longrightarrow>
         extract_job_from_element D uj b n e = None)) \<and>
   (\<not> (name_of D e = ''a'' \<and> get_text D e \<noteq> []) \<and>
    (\<forall>sel\<in>set title_selectors. \<forall>c'. select_one D e sel = Some c' \<longrightarrow> get_text D c' = []) \<longrightarrow>
      (extract_job_from_element D uj b n e = Some r \<longrightarrow>
         title r = JStr (get_text D e) \<and> length (get_text D e) < 200 \<and>
         (\<exists>w\<in>set title_words. contains w (lower (get_text D e)))))"
proof (intro conjI impI)
  assume "extract_job_from_element D uj b n e = Some r"
  from extract_title[OF this]
  show "\<exists>t. title r = JStr t \<and> 3 < length (strip t) \<and> length t \<le> 200" by simp
next
  assume a: "name_of D e = ''a'' \<and> get_text D e \<noteq> []"
  then have tt: "title_text D e = get_text D e" by (simp add: title_text_anchor)
  { assume "extract_job_from_element D uj b n e = Some r"
    from extract_title[OF this] tt show "title r = JStr (take 200 (get_text D e))" by simp }
  { assume "length (strip (take 200 (get_text D e))) \<le> 3"
    then show "extract_job_from_element D uj b n e = None" using tt by (simp add: extract_short) }
  { assume h: "3 < length (strip (take 200 (get_text D e))) \<and> get_attr D e ''href'' = Some h \<and>
       startswith h ''http''"
    then have hne: "h \<noteq> []" and ns: "\<not> startswith h ''/''"
      by (auto simp: startswith_def prefix_def)
    have u: "element_url D uj b e = Some h"
      using a h hne ns by (simp add: element_url_def href_url_def)
    have "strip (take 200 (get_text D e)) \<noteq> []" using h by auto
    then have "take 200 (get_text D e) \<noteq> []" by (rule strip_nonempty)
    then show "\<exists>r'. extract_job_from_element D uj b n e = Some r' \<and> url r' = JStr h"
      using u h tt by (simp add: extract_job_from_element_def Let_def) }
next
  assume a: "\<not> (name_of D e = ''a'' \<and> get_text D e \<noteq> []) \<and> i < length title_selectors \<and>
    select_one D e (title_selectors ! i) = Some c \<and> get_text D c \<noteq> [] \<and>
    (\<forall>j<i. \<forall>c'. select_one D e (title_selectors ! j) = Some c' \<longrightarrow> get_text D c' = [])"
  then have tt: "title_text D e = get_text D c" by (intro title_text_selected) auto
  { assume "extract_job_from_element D uj b n e = Some r"
    from extract_title[OF this] tt show "title r = JStr (take 200 (get_text D c))" by simp }
  { assume "length (strip (take 200 (get_text D c))) \<le> 3"
    then show "extract_job_from_element D uj b n e = None" using tt by (simp add: extract_short) }
next
  assume a: "\<not> (name_of D e = ''a'' \<and> get_text D e \<noteq> []) \<and>
    (\<forall>sel\<in>set title_selectors. \<forall>c'. select_one D e sel = Some c' \<longrightarrow> get_text D c' = [])"
  assume x: "extract_job_from_element D uj b n e = Some r"
  from extract_title[OF x] have t: "title r = JStr (take 200 (title_text D e))"
    and "3 < length (strip (take 200 (title_text D e)))" by simp_all
  then have "strip (take 200 (title_text D e)) \<noteq> []" by auto
  then have "take 200 (title_text D e) \<noteq> []" by (rule strip_nonempty)
  then have "title_text D e \<noteq> []" by auto
  with title_text_own[of D e] a have o: "title_text D e = get_text D e \<and> length (get_text D e) < 200 \<and>
         (\<exists>w\<in>set title_words. contains w (lower (get_text D e)))" by blast
  then show "title r = JStr (get_text D e)" using t by simp
  show "length (get_text D e) < 200" using o by simp
  show "\<exists>w\<in>set title_words. contains w (lower (get_text D e))" using o by simp
qed


text \<open>The sample page: three elements give a record, the anchor \<^verbatim>\<open>CEO\<close> gives none.\<close>

lemma extract_sample_div:
  "extract_job_from_element sample_dom urljoin_plain pulte_base sample_now 0 =
     Some (site_engineer_job ''Dallas, TX'')"
  by code_simp

lemma extract_sample_anchor:
  "extract_job_from_element sample_dom urljoin_plain pulte_base sample_now 1 =
     Some project_manager_job"
  by code_simp

lemma extract_sample_short:
  "extract_job_from_element sample_dom urljoin_plain pulte_base sample_now 3 = None"
  by code_simp

theorem extract_job_title_gate_witness:
  "extract_job_from_element sample_dom urljoin_plain pulte_base sample_now 1 =
     Some project_manager_job \<and>
   name_of sample_dom 1 = ''a'' \<and> get_text sample_dom 1 = ''Project Manager'' \<and>
   title project_manager_job = JStr ''Project Manager'' \<and>
   name_of sample_dom 3 = ''a'' \<and> get_text sample_dom 3 = ''CEO'' \<and>
   extract_job_from_element sample_dom urljoin_plain pulte_base sample_now 3 = None"
proof -
  note x1 = extract_sample_anchor
  have n1: "name_of sample_dom 1 = ''a''" by code_simp
  have t1: "get_text sample_dom 1 = ''Project Manager''" by code_simp
  have n3: "name_of sample_dom 3 = ''a''" by code_simp
  have t3: "get_text sample_dom 3 = ''CEO''" by code_simp
  have s3: "strip ''CEO'' = ''CEO''" by code_simp
  from extract_job_title_gate[of sample_dom urljoin_plain pulte_base sample_now 1
      project_manager_job] x1 n1 t1
  have a: "title project_manager_job = JStr ''Project Manager''" by simp
  from extract_job_title_gate[of sample_dom urljoin_plain pulte_base sample_now 3] n3 t3 s3
  have b: "extract_job_from_element sample_dom urljoin_plain pulte_base sample_now 3 = None"
    by simp
  from x1 n1 t1 a n3 t3 b show ?thesis by simp
qed

lemma unique_loop_firsts:
  "unique_loop seen acc jobs =
     acc @ map (nth jobs)
       (filter (\<lambda>i. (title (jobs ! i), url (jobs ! i)) \<notin> seen \<and>
                    (\<forall>j<i. (title (jobs ! j), url (jobs ! j)) \<noteq> (title (jobs ! i), url (jobs ! i))))
          [0..<length jobs])"
proof (induction jobs arbitrary: seen acc)
  case Nil
  then show ?case by simp
next
  case (Cons x xs)
  let ?k = "\<lambda>r. (title r, url r)"
  let ?P = "\<lambda>seen js i. ?k (js ! i) \<notin> seen \<and> (\<forall>j<i. ?k (js ! j) \<noteq> ?k (js ! i))"
  have upt: "[0..<length (x # xs)] = 0 # map Suc [0..<length xs]"
    by (simp add: upt_conv_Cons map_Suc_upt del: upt_Suc)
  have all_Suc: "(\<forall>j<Suc i. Q j) \<longleftrightarrow> Q 0 \<and> (\<forall>j<i. Q (Suc j))" for i and Q :: "nat \<Rightarrow> bool"
    by (metis less_Suc_eq_0_disj)
  show ?case
  proof (cases "?k x \<in> seen")
    case True
    have "filter (?P seen (x # xs)) (map Suc [0..<length xs]) =
          map Suc (filter (?P seen xs) [0..<length xs])"
      unfolding filter_map o_def
      by (rule arg_cong[where f = "map Suc"], rule filter_cong) (use True in \<open>auto simp: all_Suc\<close>)
    then show ?thesis using True Cons.IH[of seen acc] unfolding upt
      by (simp add: o_def del: upt_Suc)
  next
    case False
    have "filter (?P seen (x # xs)) (map Suc [0..<length xs]) =
          map Suc (filter (?P (insert (?k x) seen) xs) [0..<length xs])"
      unfolding filter_map o_def
      by (rule arg_cong[where f = "map Suc"], rule filter_cong) (auto simp: all_Suc)
    then show ?thesis using False Cons.IH[of "insert (?k x) seen" "acc @ [x]"] unfolding upt
      by (simp add: o_def del: upt_Suc)
  qed
qed

lemma filter_upt_single:
  assumes "i0 < n" and "\<And>i. i < n \<Longrightarrow> R i \<longleftrightarrow> i = i0"
  shows "filter R [0..<n] = [i0]"
proof -
  have "filter R [0..<n] = filter (\<lambda>i. i = i0) [0..<n]"
    by (rule filter_cong) (use assms(2) in auto)
  also have "\<dots> = [i0]" using assms(1)
  proof (induction n)
    case 0
    then show ?case by simp
  next
    case (Suc n)
    show ?case
    proof (cases "i0 = n")
      case True
      then have "filter (\<lambda>i. i = i0) [0..<n] = []" by (auto simp: filter_empty_conv)
      with True show ?thesis by simp
    next
      case False
      with Suc show ?thesis by simp
    qed
  qed
  finally show ?thesis .
qed

text \<open>
  Claim C9. The list returned by \<^verbatim>\<open>parse_jobs_from_html\<close> is the list of the extracted
  records from which every record is dropped whose pair of title and URL is the pair
  of an earlier record: the records that stay are first occurrences, in their original
  order. So for every extracted record the returned list holds exactly one record with
  its title and URL.
\<close>

theorem parse_jobs_dedup:
  "parse_jobs_from_html D uj b n elements =
     map (nth (extracted_jobs D uj b n elements))
       (filter (\<lambda>i. \<forall>j<i. (title (extracted_jobs D uj b n elements ! j),
                              url (extracted_jobs D uj b n elements ! j)) \<noteq>
                             (title (extracted_jobs D uj b n elements ! i),
                              url (extracted_jobs D uj b n elements ! i)))
          [0..<length (extracted_jobs D uj b n elements)]) \<and>
   (\<forall>r\<in>set (extracted_jobs D uj b n elements).
      length (filter (\<lambda>x. title x = title r \<and> url x = url r)
                (parse_jobs_from_html D uj b n elements)) = 1)"
proof
  define jobs where "jobs = extracted_jobs D uj b n elements"
  define k where "k = (\<lambda>r :: job_record. (title r, url r))"
  define F where "F = (\<lambda>i. \<forall>j<i. k (jobs ! j) \<noteq> k (jobs ! i))"
  have out: "parse_jobs_from_html D uj b n elements = map (nth jobs) (filter F [0..<length jobs])"
    unfolding parse_jobs_from_html_def unique_loop_firsts jobs_def F_def k_def by simp
  then show "parse_jobs_from_html D uj b n elements =
     map (nth (extracted_jobs D uj b n elements))
       (filter (\<lambda>i. \<forall>j<i. (title (extracted_jobs D uj b n elements ! j),
                              url (extracted_jobs D uj b n elements ! j)) \<noteq>
                             (title (extracted_jobs D uj b n elements ! i),
                              url (extracted_jobs D uj b n elements ! i)))
          [0..<length (extracted_jobs D uj b n elements)])"
    unfolding jobs_def F_def k_def .
  show "\<forall>r\<in>set (extracted_jobs D uj b n elements).
      length (filter (\<lambda>x. title x = title r \<and> url x = url r)
                (parse_jobs_from_html D uj b n elements)) = 1"
  proof
    fix r assume "r \<in> set (extracted_jobs D uj b n elements)"
    then obtain m where m: "m < length jobs" "jobs ! m = r"
      unfolding jobs_def by (auto simp: in_set_conv_nth)
    define i0 where "i0 = (LEAST i. i < length jobs \<and> k (jobs ! i) = k r)"
    have ex: "m < length jobs \<and> k (jobs ! m) = k r" using m by simp
    from LeastI[of "\<lambda>i. i < length jobs \<and> k (jobs ! i) = k r", OF ex]
    have i0: "i0 < length jobs" "k (jobs ! i0) = k r" unfolding i0_def by simp_all
    have least: "\<And>j. j < length jobs \<Longrightarrow> k (jobs ! j) = k r \<Longrightarrow> i0 \<le> j"
      unfolding i0_def by (rule Least_le) simp
    have R: "(F i \<and> k (jobs ! i) = k r) \<longleftrightarrow> i = i0" if "i < length jobs" for i
    proof
      assume a: "F i \<and> k (jobs ! i) = k r"
      then have "i0 \<le> i" using least that by blast
      moreover have "\<not> i0 < i" using a i0 unfolding F_def by auto
      ultimately show "i = i0" by simp
    next
      assume "i = i0"
      moreover have "F i0" unfolding F_def
      proof (intro allI impI)
        fix j assume "j < i0"
        then have "j < length jobs" using i0 by simp
        with least[of j] \<open>j < i0\<close> show "k (jobs ! j) \<noteq> k (jobs ! i0)" using i0 by auto
      qed
      ultimately show "F i \<and> k (jobs ! i) = k r" using i0 by simp
    qed
    have "filter (\<lambda>x. title x = title r \<and> url x = url r) (map (nth jobs) (filter F [0..<length jobs]))
          = map (nth jobs) (filter (\<lambda>i. F i \<and> k (jobs ! i) = k r) [0..<length jobs])"
      by (simp add: filter_map o_def k_def conj_commute)
    also have "filter (\<lambda>i. F i \<and> k (jobs ! i) = k r) [0..<length jobs] = [i0]"
      by (rule filter_upt_single[OF i0(1)]) (use R in blast)
    finally show "length (filter (\<lambda>x. title x = title r \<and> url x = url r)
                (parse_jobs_from_html D uj b n elements)) = 1"
      unfolding out by simp
  qed
qed


lemma extracted_sample:
  "extracted_jobs sample_dom urljoin_plain pulte_base sample_now [0, 1, 2, 3] =
     [site_engineer_job ''Dallas, TX'', project_manager_job, site_engineer_job ''Dallas'']"
  by code_simp

lemma parse_sample:
  "parse_jobs_from_html sample_dom urljoin_plain pulte_base sample_now [0, 1, 2, 3] =
     [site_engineer_job ''Dallas, TX'', project_manager_job]"
  by code_simp

theorem parse_jobs_dedup_witness:
  "extracted_jobs sample_dom urljoin_plain pulte_base sample_now [0, 1, 2, 3] =
     [site_engineer_job ''Dallas, TX'', project_manager_job, site_engineer_job ''Dallas''] \<and>
   parse_jobs_from_html sample_dom urljoin_plain pulte_base sample_now [0, 1, 2, 3] =
     [site_engineer_job ''Dallas, TX'', project_manager_job] \<and>
   length (filter (\<lambda>x. title x = title (site_engineer_job ''Dallas'') \<and>
                        url x = url (site_engineer_job ''Dallas''))
             (parse_jobs_from_html sample_dom urljoin_plain pulte_base sample_now [0, 1, 2, 3])) = 1"
proof -
  note e = extracted_sample and p = parse_sample
  have "site_engineer_job ''Dallas'' \<in>
          set (extracted_jobs sample_dom urljoin_plain pulte_base sample_now [0, 1, 2, 3])"
    unfolding e by simp
  with parse_jobs_dedup[of sample_dom urljoin_plain pulte_base sample_now "[0, 1, 2, 3]"]
  have "length (filter (\<lambda>x. title x = title (site_engineer_job ''Dallas'') \<and>
                        url x = url (site_engineer_job ''Dallas''))
             (parse_jobs_from_html sample_dom urljoin_plain pulte_base sample_now [0, 1, 2, 3])) = 1"
    by blast
  with e p show ?thesis by simp
qed

section \<open>Requests that fail at every attempt\<close>



















end
